theory Spec2Isabelle
  imports Main "HOL-Library.Word"
begin

section \<open>JavaScript values\<close>

text \<open>
  The collector handles values of type \<open>unknown\<close>: the result an operation resolves
  with, the value it throws, the caller's \<open>input\<close>. They are modelled as plain data.
  Numbers are the integers from \<open>-2^53\<close> to \<open>2^53 - 1\<close>, kept as 54-bit signed
  words: a double holds each of them exactly and \<open>String\<close> prints all their digits.
  An \<open>Error\<close> instance carries its name, its message and its other own properties
  (\<open>code\<close>, \<open>stack\<close>, ...). Functions are not values of the model, so a property
  named \<open>toString\<close> is never callable. Getters, proxies, symbols, cyclic objects and
  objects without a prototype are outside the model.
\<close>

datatype jsval =
    JUndefined
  | JNull
  | JBool bool
  | JNumber "54 word"
  | JString string
  | JArray "jsval list"
  | JObject "(string \<times> jsval) list"
  | JError string string "(string \<times> jsval) list"

text \<open>Reading a property: \<open>undefined\<close> when the object does not have it.\<close>

definition read_prop :: "(string \<times> jsval) list \<Rightarrow> string \<Rightarrow> jsval" where
  "read_prop ps k = (case map_of ps k of None \<Rightarrow> JUndefined | Some v \<Rightarrow> v)"

text \<open>\<open>value && ...\<close>: the falsy values are undefined, null, false, 0 and the empty string.\<close>

fun truthy :: "jsval \<Rightarrow> bool" where
  "truthy JUndefined = False"
| "truthy JNull = False"
| "truthy (JBool b) = b"
| "truthy (JNumber n) = (n \<noteq> 0)"
| "truthy (JString s) = (s \<noteq> [])"
| "truthy _ = True"

text \<open>\<open>typeof value === 'object'\<close> (true of null as well).\<close>

fun typeof_object :: "jsval \<Rightarrow> bool" where
  "typeof_object JNull = True"
| "typeof_object (JArray xs) = True"
| "typeof_object (JObject ps) = True"
| "typeof_object (JError n m ps) = True"
| "typeof_object _ = False"

text \<open>
  \<open>k in value\<close> for a value that is an object, and a name \<open>k\<close> that is neither an
  array index nor a method found on a prototype. An Error instance always has a name and a
  message.
\<close>

fun has_property :: "string \<Rightarrow> jsval \<Rightarrow> bool" where
  "has_property k (JObject ps) = (k \<in> set (map fst ps))"
| "has_property k (JError n m ps) =
     (k = ''name'' \<or> k = ''message'' \<or> k \<in> set (map fst ps))"
| "has_property k _ = False"

fun get :: "jsval \<Rightarrow> string \<Rightarrow> jsval" where
  "get (JObject ps) k = read_prop ps k"
| "get (JError n m ps) k =
     (if k = ''name'' then JString n else if k = ''message'' then JString m
      else read_prop ps k)"
| "get _ k = JUndefined"

text \<open>
  \<open>String(value)\<close>, the platform's conversion: the text (\<open>Inr\<close>), or the TypeError it
  throws (\<open>Inl\<close>). An object is converted by its \<open>toString\<close> method. An own property of
  that name hides the inherited method and is not callable, and \<open>valueOf\<close> gives the
  object back, so the conversion throws. An array joins the conversions of its elements,
  an absent or null element giving the empty text.
\<close>

fun show_nat :: "nat \<Rightarrow> string" where
  "show_nat n =
     (if n < 10 then [''0123456789'' ! n]
      else show_nat (n div 10) @ [''0123456789'' ! (n mod 10)])"

definition show_int :: "int \<Rightarrow> string" where
  "show_int i = (if i < 0 then CHR ''-'' # show_nat (nat (- i)) else show_nat (nat i))"

fun join :: "string \<Rightarrow> string list \<Rightarrow> string" where
  "join sep [] = []"
| "join sep [x] = x"
| "join sep (x # y # ys) = x @ sep @ join sep (y # ys)"

definition cannot_convert :: jsval where
  "cannot_convert = JError ''TypeError'' ''Cannot convert object to primitive value'' []"

text \<open>The results of a list of conversions, or the first error thrown among them.\<close>

fun all_converted :: "(jsval + string) list \<Rightarrow> jsval + string list" where
  "all_converted [] = Inr []"
| "all_converted (Inl e # rs) = Inl e"
| "all_converted (Inr x # rs) =
     (case all_converted rs of Inl e \<Rightarrow> Inl e | Inr xs \<Rightarrow> Inr (x # xs))"

fun js_String :: "jsval \<Rightarrow> jsval + string" where
  "js_String JUndefined = Inr ''undefined''"
| "js_String JNull = Inr ''null''"
| "js_String (JBool b) = Inr (if b then ''true'' else ''false'')"
| "js_String (JNumber n) = Inr (show_int (sint n))"
| "js_String (JString s) = Inr s"
| "js_String (JArray xs) =
     (case all_converted
             (map (\<lambda>x. if x = JUndefined \<or> x = JNull then Inr [] else js_String x) xs) of
        Inl e \<Rightarrow> Inl e
      | Inr parts \<Rightarrow> Inr (join '','' parts))"
| "js_String (JObject ps) =
     (if ''toString'' \<in> set (map fst ps) then Inl cannot_convert
      else Inr ''[object Object]'')"
| "js_String (JError n m ps) =
     (if ''toString'' \<in> set (map fst ps) then Inl cannot_convert
      else Inr (if n = [] then m else if m = [] then n else n @ '': '' @ m))"

section \<open>The data model (types.ts)\<close>

text \<open>
  An optional field is \<open>None\<close> when reading it gives \<open>undefined\<close>. A timestamp is the
  instant in milliseconds whose ISO-8601 text the code stores, and an invocation id is the
  index of the UUID drawn for it. A configured number is an integer or NaN.
\<close>

datatype number = Num int | NaN

record emcy_config =
  cfg_apiKey :: string
  cfg_endpoint :: "string option"
  cfg_mcpServerId :: "string option"
  cfg_batchSize :: "number option"
  cfg_flushInterval :: "number option"
  cfg_debug :: "bool option"

record invocation_output =
  out_status :: jsval
  out_body :: jsval

record invocation_error =
  err_message :: string
  err_code :: jsval
  err_stack :: jsval

record invocation_metadata =
  sessionId :: "string option"
  agentId :: "string option"
  userId :: "string option"
  inv_serverName :: "string option"
  inv_serverVersion :: "string option"
  inv_mcpServerId :: "string option"

record tool_invocation =
  invocationId :: nat
  toolName :: string
  timestamp :: nat
  duration :: int
  success :: bool
  inv_input :: "jsval option"
  inv_output :: "invocation_output option"
  inv_error :: "invocation_error option"
  inv_metadata :: "invocation_metadata option"

record telemetry_batch =
  batch_apiKey :: string
  batch_mcpServerId :: "string option"
  batch_timestamp :: nat
  invocations :: "tool_invocation list"

section \<open>Transport (transport.ts)\<close>

definition DEFAULT_ENDPOINT :: string where
  "DEFAULT_ENDPOINT = ''https://api.emcy.ai/v1/telemetry''"

definition MAX_RETRIES :: nat where
  "MAX_RETRIES = 3"

definition RETRY_DELAY_MS :: nat where
  "RETRY_DELAY_MS = 1000"

record telemetry_transport =
  endpoint :: string
  transport_debug :: bool

text \<open>\<open>new TelemetryTransport(endpoint, debug)\<close>: an empty endpoint is falsy.\<close>

definition new_transport :: "string option \<Rightarrow> bool \<Rightarrow> telemetry_transport" where
  "new_transport ep dbg =
     \<lparr>endpoint = (case ep of None \<Rightarrow> DEFAULT_ENDPOINT
                   | Some e \<Rightarrow> if e = [] then DEFAULT_ENDPOINT else e),
      transport_debug = dbg\<rparr>"

text \<open>
  What \<open>fetch\<close> gives back: a response, of which \<open>send\<close> reads \<open>ok\<close>, \<open>status\<close> and
  \<open>statusText\<close>, or a rejection with the thrown value. \<open>http_response\<close> is the response a
  real \<open>fetch\<close> builds for a status code: its \<open>ok\<close> flag is set exactly for 200 to 299.
\<close>

record response =
  ok :: bool
  status :: int
  statusText :: string

datatype fetch_outcome = Resolved response | Rejected jsval

definition http_response :: "int \<Rightarrow> string \<Rightarrow> response" where
  "http_response st reason = \<lparr>ok = (200 \<le> st \<and> st \<le> 299), status = st, statusText = reason\<rparr>"

record request =
  url :: string
  http_method :: string
  content_type :: string
  authorization :: string
  body :: telemetry_batch

text \<open>
  \<open>lastError\<close>, of which only the message is ever read: the Error built from a failed
  response, whose message \<open>HTTP ${status}: ${statusText}\<close> is kept as its two parts, or an
  Error with the given message.
\<close>

datatype last_error = HttpError int string | Thrown string

datatype console_line =
    Logged string int bool
  | Sent nat
  | ClientError int string
  | FailedAfter nat "last_error option"

text \<open>
  \<open>error instanceof Error ? error : new Error(String(error))\<close>: the message of the
  resulting Error, or the TypeError that \<open>String\<close> throws.
\<close>

definition as_Error :: "jsval \<Rightarrow> jsval + string" where
  "as_Error e = (case e of JError n m ps \<Rightarrow> Inr m | _ \<Rightarrow> js_String e)"

text \<open>What one call of \<open>send\<close> does, in order.\<close>

datatype send_event = Fetch request | Delay nat | Console console_line

definition post :: "telemetry_transport \<Rightarrow> telemetry_batch \<Rightarrow> request" where
  "post tr batch =
     \<lparr>url = endpoint tr, http_method = ''POST'', content_type = ''application/json'',
      authorization = ''Bearer '' @ batch_apiKey batch, body = batch\<rparr>"

text \<open>The wait after a failed attempt: none after the last one.\<close>

definition backoff :: "nat \<Rightarrow> send_event list" where
  "backoff attempt =
     (if attempt < MAX_RETRIES - 1 then [Delay (RETRY_DELAY_MS * 2 ^ attempt)] else [])"

text \<open>
  The loop of \<open>send\<close>, from attempt number \<open>attempt\<close> on. \<open>net k\<close> is what the \<open>fetch\<close> of
  attempt \<open>k\<close> gives back. The result is the value returned (\<open>Inr\<close>) or the value thrown
  (\<open>Inl\<close>), and the events in order. When the conversion in the \<open>catch\<close> block
  throws, the error leaves \<open>send\<close>.
\<close>

function send_loop ::
  "telemetry_transport \<Rightarrow> telemetry_batch \<Rightarrow> (nat \<Rightarrow> fetch_outcome) \<Rightarrow> nat \<Rightarrow>
     last_error option \<Rightarrow> (jsval + bool) \<times> send_event list" where
  "send_loop tr batch net attempt lastError =
     (if attempt < MAX_RETRIES then
        (case net attempt of
           Resolved r \<Rightarrow>
             if ok r then
               (Inr True, Fetch (post tr batch) #
                  (if transport_debug tr then [Console (Sent (length (invocations batch)))]
                   else []))
             else if 400 \<le> status r \<and> status r < 500 then
               (Inr False, [Fetch (post tr batch),
                            Console (ClientError (status r) (statusText r))])
             else
               (let (res, evs) =
                      send_loop tr batch net (Suc attempt)
                        (Some (HttpError (status r) (statusText r)))
                in (res, Fetch (post tr batch) # backoff attempt @ evs))
         | Rejected e \<Rightarrow>
             (case as_Error e of
                Inl thrown \<Rightarrow> (Inl thrown, [Fetch (post tr batch)])
              | Inr m \<Rightarrow>
                  (let (res, evs) = send_loop tr batch net (Suc attempt) (Some (Thrown m))
                   in (res, Fetch (post tr batch) # backoff attempt @ evs))))
      else
        (Inr False,
         [Console (FailedAfter MAX_RETRIES lastError)]))"
  by pat_completeness auto
termination
  by (relation "measure (\<lambda>(tr, batch, net, attempt, lastError). MAX_RETRIES - attempt)") auto

declare send_loop.simps [simp del]

definition send ::
  "telemetry_transport \<Rightarrow> telemetry_batch \<Rightarrow> (nat \<Rightarrow> fetch_outcome) \<Rightarrow>
     (jsval + bool) \<times> send_event list" where
  "send tr batch net = send_loop tr batch net 0 None"

section \<open>Collector (telemetry.ts)\<close>

definition DEFAULT_BATCH_SIZE :: int where
  "DEFAULT_BATCH_SIZE = 10"

definition DEFAULT_FLUSH_INTERVAL :: int where
  "DEFAULT_FLUSH_INTERVAL = 5000"

record server_metadata =
  serverName :: "string option"
  serverVersion :: "string option"
  meta_mcpServerId :: "string option"

record emcy_telemetry =
  apiKey :: string
  mcpServerId :: "string option"
  transport :: telemetry_transport
  queue :: "tool_invocation list"
  batchSize :: int
  flushInterval :: int
  flushTimer :: "nat option"
  debug :: bool
  metadata :: server_metadata

text \<open>
  The host process around one collector: the clock in milliseconds, the number of UUIDs
  drawn, the interval timers that are set (every one of them runs the collector's flush),
  the process events that have the collector's shutdown as a listener, the batches passed
  to \<open>Transport.send\<close> so far (each call starts with a \<open>fetch\<close>), and the lines
  written to the console.
\<close>

record interval_timer =
  handle :: nat
  period :: nat
  due :: nat

record world =
  tel :: emcy_telemetry
  clock :: nat
  uuids :: nat
  timers :: "interval_timer list"
  next_handle :: nat
  listeners :: "string list"
  handed :: "telemetry_batch list"
  console :: "console_line list"

text \<open>\<open>value || fallback\<close> on an optional number: absent, 0 and NaN are falsy.\<close>

definition or_number :: "number option \<Rightarrow> int \<Rightarrow> int" where
  "or_number v fallback =
     (case v of
        None \<Rightarrow> fallback
      | Some NaN \<Rightarrow> fallback
      | Some (Num n) \<Rightarrow> if n = 0 then fallback else n)"

text \<open>\<open>setInterval\<close> of the host: a delay outside 1 to 2147483647 is set to 1.\<close>

definition timer_delay :: "int \<Rightarrow> nat" where
  "timer_delay ms = (if 1 \<le> ms \<and> ms \<le> 2147483647 then nat ms else 1)"

definition startFlushTimer :: "world \<Rightarrow> world" where
  "startFlushTimer w =
     (let h = next_handle w; p = timer_delay (flushInterval (tel w))
      in w\<lparr>timers := timers w @ [\<lparr>handle = h, period = p, due = clock w + p\<rparr>],
           next_handle := Suc h,
           tel := (tel w)\<lparr>flushTimer := Some h\<rparr>\<rparr>)"

definition setupShutdownHooks :: "world \<Rightarrow> world" where
  "setupShutdownHooks w =
     w\<lparr>listeners := listeners w @ [''beforeExit'', ''SIGINT'', ''SIGTERM'']\<rparr>"

text \<open>The constructor, in a fresh host whose clock reads \<open>now\<close>.\<close>

definition constructor :: "emcy_config \<Rightarrow> nat \<Rightarrow> world" where
  "constructor config now =
     (let dbg = (case cfg_debug config of None \<Rightarrow> False | Some b \<Rightarrow> b);
          this = \<lparr>apiKey = cfg_apiKey config,
                  mcpServerId = cfg_mcpServerId config,
                  transport = new_transport (cfg_endpoint config) dbg,
                  queue = [],
                  batchSize = or_number (cfg_batchSize config) DEFAULT_BATCH_SIZE,
                  flushInterval = or_number (cfg_flushInterval config) DEFAULT_FLUSH_INTERVAL,
                  flushTimer = None,
                  debug = dbg,
                  metadata = \<lparr>serverName = None, serverVersion = None,
                              meta_mcpServerId = None\<rparr>\<rparr>;
          this' = (case cfg_mcpServerId config of
                     None \<Rightarrow> this
                   | Some s \<Rightarrow>
                       if s = [] then this
                       else this\<lparr>metadata := (metadata this)\<lparr>meta_mcpServerId := Some s\<rparr>\<rparr>);
          w = \<lparr>tel = this', clock = now, uuids = 0, timers = [], next_handle = 0,
               listeners = [], handed = [], console = []\<rparr>
      in setupShutdownHooks (startFlushTimer w))"

definition setServerInfo :: "string \<Rightarrow> string \<Rightarrow> world \<Rightarrow> world" where
  "setServerInfo name version w =
     w\<lparr>tel := (tel w)\<lparr>metadata :=
          (metadata (tel w))\<lparr>serverName := Some name, serverVersion := Some version\<rparr>\<rparr>\<rparr>"

text \<open>
  An \<open>async\<close> method gives the world as it is when the method first suspends, and the
  batch whose delivery (\<open>Transport.send\<close>) its promise waits for: the promise settles when
  that \<open>send\<close> has returned, and at once when there is none.
\<close>

definition flush :: "world \<Rightarrow> world \<times> telemetry_batch option" where
  "flush w =
     (if length (queue (tel w)) = 0 then (w, None)
      else
        (let drained = queue (tel w);
             w1 = w\<lparr>tel := (tel w)\<lparr>queue := []\<rparr>\<rparr>;
             batch = \<lparr>batch_apiKey = apiKey (tel w1),
                      batch_mcpServerId = mcpServerId (tel w1),
                      batch_timestamp = clock w1,
                      invocations = drained\<rparr>
         in (w1\<lparr>handed := handed w1 @ [batch]\<rparr>, Some batch)))"

definition log :: "tool_invocation \<Rightarrow> world \<Rightarrow> world" where
  "log invocation w =
     (let w1 = w\<lparr>tel := (tel w)\<lparr>queue := queue (tel w) @ [invocation]\<rparr>\<rparr>;
          w2 = (if debug (tel w1)
                then w1\<lparr>console := console w1 @
                       [Logged (toolName invocation) (duration invocation)
                          (success invocation)]\<rparr>
                else w1)
      in if batchSize (tel w2) \<le> int (length (queue (tel w2))) then fst (flush w2) else w2)"

definition clearInterval :: "nat \<Rightarrow> world \<Rightarrow> world" where
  "clearInterval h w = w\<lparr>timers := filter (\<lambda>t. handle t \<noteq> h) (timers w)\<rparr>"

definition shutdown :: "world \<Rightarrow> world \<times> telemetry_batch option" where
  "shutdown w =
     (let w1 = (case flushTimer (tel w) of
                  Some h \<Rightarrow>
                    (let w' = clearInterval h w in w'\<lparr>tel := (tel w')\<lparr>flushTimer := None\<rparr>\<rparr>)
                | None \<Rightarrow> w)
      in flush w1)"

definition extractOutput :: "jsval \<Rightarrow> invocation_output" where
  "extractOutput result =
     (if truthy result \<and> typeof_object result \<and> has_property ''status'' result
      then \<lparr>out_status = get result ''status'', out_body = get result ''data''\<rparr>
      else \<lparr>out_status = JUndefined, out_body = result\<rparr>)"

text \<open>
  \<open>error instanceof Error\<close> is the first equation. For any other value the message is
  \<open>String(error)\<close>, and \<open>extractError\<close> throws what that conversion throws.
\<close>

fun extractError :: "jsval \<Rightarrow> jsval + invocation_error" where
  "extractError (JError n m ps) =
     Inr \<lparr>err_message = m, err_code = read_prop ps ''code'',
          err_stack = read_prop ps ''stack''\<rparr>"
| "extractError err =
     (case js_String err of
        Inl thrown \<Rightarrow> Inl thrown
      | Inr str \<Rightarrow>
          Inr \<lparr>err_message = str, err_code = JUndefined, err_stack = JUndefined\<rparr>)"

record trace_options =
  opt_input :: "jsval option"
  opt_sessionId :: "string option"

text \<open>\<open>{ sessionId: options?.sessionId, ...this.metadata }\<close>\<close>

definition merge_metadata ::
  "trace_options option \<Rightarrow> server_metadata \<Rightarrow> invocation_metadata" where
  "merge_metadata options m =
     \<lparr>sessionId = (case options of None \<Rightarrow> None | Some opts \<Rightarrow> opt_sessionId opts),
      agentId = None, userId = None,
      inv_serverName = serverName m, inv_serverVersion = serverVersion m,
      inv_mcpServerId = meta_mcpServerId m\<rparr>"

text \<open>
  \<open>trace\<close>. The operation \<open>fn\<close> is run in the world: it gives the value it resolves with
  (\<open>Inr\<close>) or the value it throws (\<open>Inl\<close>), and the world as it is when it settles.
  The \<open>try\<close> block awaits the operation, logs the success record and returns the result;
  on the values of the model \<open>extractOutput\<close> and \<open>log\<close> do not throw, so the block
  throws exactly what the operation throws. The \<open>catch\<close> block builds the failure record,
  logs it and throws the value caught; when \<open>extractError\<close> throws, nothing is logged and
  its error is what \<open>trace\<close> rejects with.
\<close>

definition trace ::
  "string \<Rightarrow> (world \<Rightarrow> (jsval + jsval) \<times> world) \<Rightarrow> trace_options option \<Rightarrow> world \<Rightarrow>
     (jsval + jsval) \<times> world" where
  "trace name fn options w =
     (let invocationId = uuids w;
          w0 = w\<lparr>uuids := Suc (uuids w)\<rparr>;
          startTime = clock w0;
          (r, w1) = fn w0
      in case r of
           Inr result \<Rightarrow>
             (Inr result,
              log \<lparr>invocationId = invocationId, toolName = name, timestamp = clock w1,
                   duration = int (clock w1) - int startTime, success = True,
                   inv_input = (case options of None \<Rightarrow> None | Some opts \<Rightarrow> opt_input opts),
                   inv_output = Some (extractOutput result), inv_error = None,
                   inv_metadata = Some (merge_metadata options (metadata (tel w1)))\<rparr> w1)
         | Inl err \<Rightarrow>
             (case extractError err of
                Inl thrown \<Rightarrow> (Inl thrown, w1)
              | Inr e \<Rightarrow>
                  (Inl err,
                   log \<lparr>invocationId = invocationId, toolName = name, timestamp = clock w1,
                        duration = int (clock w1) - int startTime, success = False,
                        inv_input =
                          (case options of None \<Rightarrow> None | Some opts \<Rightarrow> opt_input opts),
                        inv_output = None, inv_error = Some e,
                        inv_metadata = Some (merge_metadata options (metadata (tel w1)))\<rparr>
                     w1)))"

text \<open>
  One millisecond passes: every timer that is due runs its callback, the collector's
  flush with the promise dropped, and is set again one period later.
\<close>

definition tick :: "world \<Rightarrow> world" where
  "tick w =
     (let now = Suc (clock w);
          fired = filter (\<lambda>t. due t \<le> now) (timers w);
          w1 = w\<lparr>clock := now,
                 timers := map (\<lambda>t. if due t \<le> now then t\<lparr>due := now + period t\<rparr> else t)
                             (timers w)\<rparr>
      in fold (\<lambda>t w'. fst (flush w')) fired w1)"

fun advance :: "nat \<Rightarrow> world \<Rightarrow> world" where
  "advance 0 w = w"
| "advance (Suc n) w = advance n (tick w)"

text \<open>A process event: each listener registered for it runs shutdown, the promise dropped.\<close>

definition emit :: "string \<Rightarrow> world \<Rightarrow> world" where
  "emit event w =
     fold (\<lambda>l w'. if l = event then fst (shutdown w') else w') (listeners w) w"

text \<open>
  What a program does with a collector: the calls of the public methods, the passing of
  time and process events. The operation given to \<open>trace\<close> is itself such a program,
  followed by its outcome.
\<close>

datatype op =
    SetServerInfo string string
  | Log tool_invocation
  | Flush
  | Shutdown
  | Tick
  | Emit string
  | Trace string "op list" "jsval + jsval" "trace_options option"

fun exec :: "op \<Rightarrow> world \<Rightarrow> world" where
  "exec (SetServerInfo name version) = setServerInfo name version"
| "exec (Log invocation) = log invocation"
| "exec Flush = (\<lambda>w. fst (flush w))"
| "exec Shutdown = (\<lambda>w. fst (shutdown w))"
| "exec Tick = tick"
| "exec (Emit event) = emit event"
| "exec (Trace name script outcome options) =
     (\<lambda>w. snd (trace name (\<lambda>w0. (outcome, fold exec script w0)) options w))"

definition run :: "op list \<Rightarrow> world \<Rightarrow> world" where
  "run ops w = fold exec ops w"

fun sets_info :: "op \<Rightarrow> bool" where
  "sets_info (SetServerInfo name version) = True"
| "sets_info (Trace name script outcome options) = list_ex sets_info script"
| "sets_info _ = False"

section \<open>Vocabulary of the properties\<close>

text \<open>
  The attempts and waits of one \<open>send\<close>, in order, without the console lines and the
  request contents.
\<close>

datatype step = Attempt | Wait nat

fun schedule :: "send_event list \<Rightarrow> step list" where
  "schedule [] = []"
| "schedule (Fetch r # es) = Attempt # schedule es"
| "schedule (Delay d # es) = Wait d # schedule es"
| "schedule (Console c # es) = schedule es"

fun attempts :: "send_event list \<Rightarrow> nat" where
  "attempts [] = 0"
| "attempts (Fetch r # es) = Suc (attempts es)"
| "attempts (e # es) = attempts es"

text \<open>
  The schedule the specification prescribes for \<open>n\<close> attempts, numbered from 0: the
  attempts one after the other, and before attempt \<open>k \<ge> 1\<close> a wait of
  \<open>baseDelay * 2^(k-1)\<close> milliseconds.
\<close>

fun plan :: "nat \<Rightarrow> step list" where
  "plan 0 = []"
| "plan (Suc k) =
     (if k = 0 then [Attempt]
      else plan k @ [Wait (RETRY_DELAY_MS * 2 ^ (k - 1)), Attempt])"

text \<open>
  The ways \<open>send\<close> treats what an attempt gives back: success, a client error (not
  retried), a failure that is retried (any other response, and a rejection with an Error
  or with a value that \<open>String\<close> converts), and a rejection that makes \<open>send\<close> itself
  throw.
\<close>

definition succeeds :: "fetch_outcome \<Rightarrow> bool" where
  "succeeds out = (case out of Resolved r \<Rightarrow> ok r | Rejected e \<Rightarrow> False)"

definition client_error :: "fetch_outcome \<Rightarrow> bool" where
  "client_error out =
     (case out of
        Resolved r \<Rightarrow> \<not> ok r \<and> 400 \<le> status r \<and> status r < 500
      | Rejected e \<Rightarrow> False)"

definition retryable :: "fetch_outcome \<Rightarrow> bool" where
  "retryable out =
     (case out of
        Resolved r \<Rightarrow> \<not> ok r \<and> \<not> (400 \<le> status r \<and> status r < 500)
      | Rejected e \<Rightarrow> \<not> isl (as_Error e))"

definition escapes :: "fetch_outcome \<Rightarrow> bool" where
  "escapes out = (case out of Resolved r \<Rightarrow> False | Rejected e \<Rightarrow> isl (as_Error e))"

definition failure_of :: "fetch_outcome \<Rightarrow> last_error" where
  "failure_of out =
     (case out of
        Resolved r \<Rightarrow> HttpError (status r) (statusText r)
      | Rejected e \<Rightarrow> Thrown (projr (as_Error e)))"

text \<open>The outcomes of an operation for which \<open>trace\<close> logs a record.\<close>

definition recordable :: "jsval + jsval \<Rightarrow> bool" where
  "recordable out = (case out of Inr result \<Rightarrow> True | Inl err \<Rightarrow> \<not> isl (extractError err))"

text \<open>
  Every record logged so far, oldest first: those drained into the batches handed to the
  transport, then those still in the queue.
\<close>

definition all_records :: "world \<Rightarrow> tool_invocation list" where
  "all_records w = concat (map invocations (handed w)) @ queue (tel w)"

text \<open>
  Two invariants of the worlds a program reaches: every timer that is set is the one the
  collector's \<open>flushTimer\<close> names, and no batch handed to the transport is empty.
\<close>

definition timers_owned :: "world \<Rightarrow> bool" where
  "timers_owned w = (\<forall>h \<in> set (map handle (timers w)). flushTimer (tel w) = Some h)"

definition batches_nonempty :: "world \<Rightarrow> bool" where
  "batches_nonempty w = (\<forall>b \<in> set (handed w). invocations b \<noteq> [])"

text \<open>The fixtures of the repository's tests.\<close>

definition test_invocation :: "nat \<Rightarrow> tool_invocation" where
  "test_invocation n =
     \<lparr>invocationId = n, toolName = ''testTool'', timestamp = 0, duration = 100,
      success = True, inv_input = None, inv_output = None, inv_error = None,
      inv_metadata = None\<rparr>"

definition test_batch :: telemetry_batch where
  "test_batch =
     \<lparr>batch_apiKey = ''test-api-key'', batch_mcpServerId = None, batch_timestamp = 0,
      invocations = [test_invocation 1]\<rparr>"

definition test_config :: emcy_config where
  "test_config =
     \<lparr>cfg_apiKey = ''test-key'', cfg_endpoint = None, cfg_mcpServerId = None,
      cfg_batchSize = None, cfg_flushInterval = None, cfg_debug = None\<rparr>"

section \<open>Transport: retry and backoff\<close>

lemma schedule_append: "schedule (xs @ ys) = schedule xs @ schedule ys"
  by (induction xs rule: schedule.induct) auto

lemma attempts_append: "attempts (xs @ ys) = attempts xs + attempts ys"
  by (induction xs rule: attempts.induct) auto

lemma outcome_cases: "succeeds out \<or> client_error out \<or> retryable out \<or> escapes out"
  by (auto simp: succeeds_def client_error_def retryable_def escapes_def
      split: fetch_outcome.splits)

lemma plan_3: "plan 3 = [Attempt, Wait 1000, Attempt, Wait 2000, Attempt]"
  by (simp add: numeral_3_eq_3 RETRY_DELAY_MS_def)

lemma backoff_0: "backoff 0 = [Delay 1000]"
  by (simp add: backoff_def MAX_RETRIES_def RETRY_DELAY_MS_def)

lemma backoff_1: "backoff (Suc 0) = [Delay 2000]"
  by (simp add: backoff_def MAX_RETRIES_def RETRY_DELAY_MS_def)

lemma backoff_2: "backoff (Suc (Suc 0)) = []"
  by (simp add: backoff_def MAX_RETRIES_def)

lemma lt_max: "0 < MAX_RETRIES" "Suc 0 < MAX_RETRIES" "Suc (Suc 0) < MAX_RETRIES"
  by (simp_all add: MAX_RETRIES_def)

lemma send_loop_succeeds:
  "attempt < MAX_RETRIES \<Longrightarrow> succeeds (net attempt) \<Longrightarrow>
   send_loop tr batch net attempt le =
     (Inr True, Fetch (post tr batch) #
        (if transport_debug tr then [Console (Sent (length (invocations batch)))] else []))"
  by (subst send_loop.simps) (auto simp: succeeds_def split: fetch_outcome.splits)

lemma send_loop_client_error:
  "attempt < MAX_RETRIES \<Longrightarrow> client_error (net attempt) \<Longrightarrow>
   \<exists>c. send_loop tr batch net attempt le = (Inr False, [Fetch (post tr batch), Console c])"
  by (subst send_loop.simps) (auto simp: client_error_def split: fetch_outcome.splits)

lemma send_loop_escapes:
  "attempt < MAX_RETRIES \<Longrightarrow> escapes (net attempt) \<Longrightarrow>
   \<exists>thrown. send_loop tr batch net attempt le = (Inl thrown, [Fetch (post tr batch)])"
  by (subst send_loop.simps)
     (auto simp: escapes_def split: fetch_outcome.splits sum.splits)

lemma send_loop_retryable:
  "attempt < MAX_RETRIES \<Longrightarrow> retryable (net attempt) \<Longrightarrow>
   send_loop tr batch net attempt le =
     (fst (send_loop tr batch net (Suc attempt) (Some (failure_of (net attempt)))),
      Fetch (post tr batch) # backoff attempt @
        snd (send_loop tr batch net (Suc attempt) (Some (failure_of (net attempt)))))"
  by (subst send_loop.simps)
     (auto simp: retryable_def failure_of_def split: fetch_outcome.splits prod.splits sum.splits)

lemma send_loop_exhausted:
  "\<not> attempt < MAX_RETRIES \<Longrightarrow>
   send_loop tr batch net attempt le = (Inr False, [Console (FailedAfter MAX_RETRIES le)])"
  by (subst send_loop.simps) simp

lemma exhausted_3:
  "schedule (snd (send_loop tr batch net (Suc (Suc (Suc 0))) le)) = []"
  "attempts (snd (send_loop tr batch net (Suc (Suc (Suc 0))) le)) = 0"
  "fst (send_loop tr batch net (Suc (Suc (Suc 0))) le) = Inr False"
  by (simp_all add: send_loop_exhausted MAX_RETRIES_def)

text \<open>An attempt that is not retried is the last event but for a console line.\<close>

lemma final_attempt:
  assumes "attempt < MAX_RETRIES" and "\<not> retryable (net attempt)"
  shows "schedule (snd (send_loop tr batch net attempt le)) = [Attempt]"
    and "attempts (snd (send_loop tr batch net attempt le)) = 1"
    and "succeeds (net attempt) \<longrightarrow> fst (send_loop tr batch net attempt le) = Inr True"
    and "client_error (net attempt) \<longrightarrow> fst (send_loop tr batch net attempt le) = Inr False"
proof -
  from assms(2) outcome_cases [of "net attempt"]
  consider "succeeds (net attempt)" "\<not> client_error (net attempt)"
    | "client_error (net attempt)" "\<not> succeeds (net attempt)"
    | "escapes (net attempt)" "\<not> succeeds (net attempt)" "\<not> client_error (net attempt)"
    by (auto simp: succeeds_def client_error_def escapes_def split: fetch_outcome.splits)
  then have "schedule (snd (send_loop tr batch net attempt le)) = [Attempt]
    \<and> attempts (snd (send_loop tr batch net attempt le)) = 1
    \<and> (succeeds (net attempt) \<longrightarrow> fst (send_loop tr batch net attempt le) = Inr True)
    \<and> (client_error (net attempt) \<longrightarrow> fst (send_loop tr batch net attempt le) = Inr False)"
  proof cases
    case 1
    then show ?thesis
      by (simp add: send_loop_succeeds [where net = net and attempt = attempt, OF assms(1)])
  next
    case 2
    from send_loop_client_error [where net = net and attempt = attempt and tr = tr
        and batch = batch and le = le, OF assms(1) 2(1)] 2(2)
    show ?thesis by auto
  next
    case 3
    from send_loop_escapes [where net = net and attempt = attempt and tr = tr
        and batch = batch and le = le, OF assms(1) 3(1)] 3(2,3)
    show ?thesis by auto
  qed
  then show "schedule (snd (send_loop tr batch net attempt le)) = [Attempt]"
    and "attempts (snd (send_loop tr batch net attempt le)) = 1"
    and "succeeds (net attempt) \<longrightarrow> fst (send_loop tr batch net attempt le) = Inr True"
    and "client_error (net attempt) \<longrightarrow> fst (send_loop tr batch net attempt le) = Inr False"
    by simp_all
qed

lemma retry_step:
  assumes "attempt < MAX_RETRIES" and "retryable (net attempt)"
  shows "schedule (snd (send_loop tr batch net attempt le)) =
           Attempt # schedule (backoff attempt) @
             schedule (snd (send_loop tr batch net (Suc attempt)
                              (Some (failure_of (net attempt)))))"
    and "attempts (snd (send_loop tr batch net attempt le)) =
           Suc (attempts (backoff attempt) +
             attempts (snd (send_loop tr batch net (Suc attempt)
                              (Some (failure_of (net attempt))))))"
    and "fst (send_loop tr batch net attempt le) =
           fst (send_loop tr batch net (Suc attempt) (Some (failure_of (net attempt))))"
  using send_loop_retryable [where net = net and attempt = attempt and tr = tr
      and batch = batch and le = le, OF assms]
  by (simp_all add: schedule_append attempts_append)

text \<open>The first attempt that is not retried ends the call.\<close>

lemma send_stops_at:
  assumes "k < 3" and "\<forall>j<k. retryable (net j)" and "\<not> retryable (net k)"
  shows "schedule (snd (send tr batch net)) = plan (Suc k) \<and>
         attempts (snd (send tr batch net)) = Suc k \<and>
         (succeeds (net k) \<longrightarrow> fst (send tr batch net) = Inr True) \<and>
         (client_error (net k) \<longrightarrow> fst (send tr batch net) = Inr False)"
proof -
  from assms(1) consider "k = 0" | "k = Suc 0" | "k = Suc (Suc 0)" by arith
  then show ?thesis
  proof cases
    case 1
    with assms(3) have "\<not> retryable (net 0)" by simp
    from final_attempt [where net = net and attempt = 0, OF lt_max(1) this] 1
    show ?thesis by (simp add: send_def)
  next
    case 2
    with assms have r0: "retryable (net 0)" and n1: "\<not> retryable (net (Suc 0))" by auto
    from retry_step [where net = net and attempt = 0, OF lt_max(1) r0]
      final_attempt [where net = net and attempt = "Suc 0", OF lt_max(2) n1]
    show ?thesis
      by (simp add: send_def 2 backoff_0 RETRY_DELAY_MS_def)
  next
    case 3
    with assms have r0: "retryable (net 0)" and r1: "retryable (net (Suc 0))"
      and n2: "\<not> retryable (net (Suc (Suc 0)))" by auto
    from retry_step [where net = net and attempt = 0, OF lt_max(1) r0]
      retry_step [where net = net and attempt = "Suc 0", OF lt_max(2) r1]
      final_attempt [where net = net and attempt = "Suc (Suc 0)", OF lt_max(3) n2]
    show ?thesis
      by (simp add: send_def 3 backoff_0 backoff_1 RETRY_DELAY_MS_def)
  qed
qed

lemma send_exhausts:
  assumes "\<forall>j<3. retryable (net j)"
  shows "schedule (snd (send tr batch net)) = plan 3 \<and>
         attempts (snd (send tr batch net)) = 3 \<and>
         fst (send tr batch net) = Inr False"
proof -
  from assms have r0: "retryable (net 0)" and r1: "retryable (net (Suc 0))"
      and r2: "retryable (net (Suc (Suc 0)))" by auto
  from retry_step [where net = net and attempt = 0, OF lt_max(1) r0]
    retry_step [where net = net and attempt = "Suc 0", OF lt_max(2) r1]
    retry_step [where net = net and attempt = "Suc (Suc 0)", OF lt_max(3) r2]
  show ?thesis
    by (simp add: send_def plan_3 backoff_0 backoff_1 backoff_2 exhausted_3)
qed

text \<open>Whatever the network does, the call follows the plan for the attempts it makes.\<close>

lemma send_follows_plan:
  "1 \<le> attempts (snd (send tr batch net)) \<and> attempts (snd (send tr batch net)) \<le> 3 \<and>
   schedule (snd (send tr batch net)) = plan (attempts (snd (send tr batch net)))"
proof (cases "\<forall>j<3. retryable (net j)")
  case True
  from send_exhausts [OF True, of tr batch] show ?thesis by simp
next
  case False
  define k where "k = (LEAST j. \<not> retryable (net j))"
  from False obtain j where j: "j < 3" "\<not> retryable (net j)" by blast
  have nk: "\<not> retryable (net k)" unfolding k_def using j(2) by (rule LeastI)
  have "k \<le> j" unfolding k_def using j(2) by (rule Least_le)
  with j(1) have k3: "k < 3" by simp
  have "\<forall>i<k. retryable (net i)" unfolding k_def using not_less_Least by blast
  from send_stops_at [where net = net and k = k and tr = tr and batch = batch, OF k3 this nk] k3
  show ?thesis by simp
qed

text \<open>
  A rejection with an object that \<open>String\<close> cannot convert is the one failure that is
  not retried and not reported as false: the TypeError leaves \<open>send\<close> after that attempt.
\<close>

lemma send_throws_conversion_error:
  "send tr batch (\<lambda>k. Rejected (JObject [(''toString'', JNumber 1)])) =
     (Inl cannot_convert, [Fetch (post tr batch)])"
  by (simp add: send_def send_loop.simps [of _ _ _ 0] MAX_RETRIES_def as_Error_def)

lemma retryable_http: "500 \<le> st \<Longrightarrow> st \<le> 599 \<Longrightarrow> retryable (Resolved (http_response st reason))"
  by (simp add: retryable_def http_response_def)

lemma retryable_rejected: "retryable (Rejected e) = (\<not> isl (as_Error e))"
  by (simp add: retryable_def)

lemma as_Error_cases:
  "as_Error (JError n m ps) = Inr m"
  "js_String e = Inr s \<Longrightarrow> \<not> isl (as_Error e)"
  by (cases e; simp add: as_Error_def)+

lemma client_error_http:
  "400 \<le> st \<Longrightarrow> st < 500 \<Longrightarrow> client_error (Resolved (http_response st reason))"
  by (simp add: client_error_def http_response_def)

lemma client_error_not_retryable: "client_error out \<Longrightarrow> \<not> retryable out \<and> \<not> succeeds out"
  by (auto simp: client_error_def retryable_def succeeds_def split: fetch_outcome.splits)

lemma succeeds_not_retryable: "succeeds out \<Longrightarrow> \<not> retryable out"
  by (auto simp: retryable_def succeeds_def split: fetch_outcome.splits)

text \<open>
  C2. For every batch and every behaviour of the network, \<open>send\<close> makes between one and
  three attempts, one after the other, and its attempts and waits are the plan for that
  many attempts: a wait of 1000 ms before the second attempt and of 2000 ms before the
  third (\<open>baseDelay * 2^(k-1)\<close> before attempt \<open>k\<close>). An attempt that succeeds after
  retried failures makes \<open>send\<close> return true with nothing after that attempt. A 5xx
  response is retried, and so is a rejected \<open>fetch\<close> whenever the value thrown is an
  Error, as the network failures of \<open>fetch\<close> are, or any other value that \<open>String\<close>
  converts. When all three attempts fail in a way that is retried, \<open>send\<close> returns false
  after the third.
\<close>

theorem send_retry_backoff:
  "1 \<le> attempts (snd (send tr batch net)) \<and> attempts (snd (send tr batch net)) \<le> 3
   \<and> schedule (snd (send tr batch net)) = plan (attempts (snd (send tr batch net)))
   \<and> plan 3 = [Attempt, Wait 1000, Attempt, Wait 2000, Attempt]
   \<and> (\<forall>k<3. (\<forall>j<k. retryable (net j)) \<and> succeeds (net k) \<longrightarrow>
         fst (send tr batch net) = Inr True \<and> attempts (snd (send tr batch net)) = Suc k \<and>
         schedule (snd (send tr batch net)) = plan (Suc k))
   \<and> ((\<forall>j<3. retryable (net j)) \<longrightarrow>
         fst (send tr batch net) = Inr False \<and> attempts (snd (send tr batch net)) = 3 \<and>
         schedule (snd (send tr batch net)) = plan 3)
   \<and> retryable (Rejected (JError n m ps))
   \<and> retryable (Rejected e) = (\<not> isl (as_Error e))
   \<and> (js_String e = Inr s \<longrightarrow> retryable (Rejected e))
   \<and> (500 \<le> st \<and> st \<le> 599 \<longrightarrow> retryable (Resolved (http_response st reason)))"
proof -
  have stop: "\<forall>k<3. (\<forall>j<k. retryable (net j)) \<and> succeeds (net k) \<longrightarrow>
         fst (send tr batch net) = Inr True \<and> attempts (snd (send tr batch net)) = Suc k \<and>
         schedule (snd (send tr batch net)) = plan (Suc k)"
  proof (intro allI impI)
    fix k
    assume k: "k < 3" and h: "(\<forall>j<k. retryable (net j)) \<and> succeeds (net k)"
    then have "\<not> retryable (net k)" by (simp add: succeeds_not_retryable)
    from send_stops_at [where net = net and k = k and tr = tr and batch = batch, OF k _ this] h
    show "fst (send tr batch net) = Inr True \<and> attempts (snd (send tr batch net)) = Suc k \<and>
         schedule (snd (send tr batch net)) = plan (Suc k)" by simp
  qed
  have rej: "retryable (Rejected (JError n m ps))"
    "retryable (Rejected e) = (\<not> isl (as_Error e))"
    "js_String e = Inr s \<longrightarrow> retryable (Rejected e)"
    by (simp_all add: retryable_rejected as_Error_cases)
  from send_follows_plan [of tr batch net] plan_3 stop send_exhausts [of net tr batch]
    rej retryable_http [of st reason]
  show ?thesis by blast
qed

theorem send_retry_backoff_witness:
  "fst (send (new_transport None False) test_batch
          (\<lambda>k. Resolved (http_response (if k = 0 then 500 else if k = 1 then 503 else 200) [])))
     = Inr True
   \<and> schedule (snd (send (new_transport None False) test_batch
          (\<lambda>k. Resolved (http_response (if k = 0 then 500 else if k = 1 then 503 else 200) []))))
     = [Attempt, Wait 1000, Attempt, Wait 2000, Attempt]
   \<and> fst (send (new_transport None False) test_batch
          (\<lambda>k. if k = 1 then Rejected (JString ''Network error'')
               else Resolved (http_response 500 [])))
     = Inr False
   \<and> schedule (snd (send (new_transport None False) test_batch
          (\<lambda>k. if k = 1 then Rejected (JString ''Network error'')
               else Resolved (http_response 500 []))))
     = [Attempt, Wait 1000, Attempt, Wait 2000, Attempt]"
proof -
  let ?net = "\<lambda>k::nat. Resolved (http_response (if k = 0 then 500 else if k = 1 then 503 else 200) [])"
  let ?down = "\<lambda>k::nat. if k = 1 then Rejected (JString ''Network error'')
               else Resolved (http_response 500 [])"
  have hyp: "(\<forall>j<2. retryable (?net j)) \<and> succeeds (?net 2)"
    by (auto simp: retryable_def succeeds_def http_response_def)
  have two: "(2::nat) < 3" by simp
  from send_retry_backoff [of "new_transport None False" test_batch ?net]
  have "\<forall>k<3. (\<forall>j<k. retryable (?net j)) \<and> succeeds (?net k) \<longrightarrow>
         fst (send (new_transport None False) test_batch ?net) = Inr True \<and>
         attempts (snd (send (new_transport None False) test_batch ?net)) = Suc k \<and>
         schedule (snd (send (new_transport None False) test_batch ?net)) = plan (Suc k)"
    by blast
  with two hyp have up: "fst (send (new_transport None False) test_batch ?net) = Inr True \<and>
         schedule (snd (send (new_transport None False) test_batch ?net)) = plan (Suc 2)"
    by blast
  have all: "\<forall>j<3. retryable (?down j)"
    by (simp add: retryable_def http_response_def as_Error_def)
  from send_retry_backoff [of "new_transport None False" test_batch ?down]
  have "(\<forall>j<3. retryable (?down j)) \<longrightarrow>
         fst (send (new_transport None False) test_batch ?down) = Inr False \<and>
         attempts (snd (send (new_transport None False) test_batch ?down)) = 3 \<and>
         schedule (snd (send (new_transport None False) test_batch ?down)) = plan 3"
    by blast
  with all have down: "fst (send (new_transport None False) test_batch ?down) = Inr False \<and>
         schedule (snd (send (new_transport None False) test_batch ?down)) = plan 3"
    by blast
  from up down show ?thesis
    by (simp add: plan_3 [simplified numeral_3_eq_3] numeral_2_eq_2 numeral_3_eq_3
        RETRY_DELAY_MS_def)
qed

text \<open>
  C3. When the attempts before attempt \<open>k\<close> were retried and attempt \<open>k\<close> receives a
  response that is not ok with a status from 400 to 499, \<open>send\<close> returns false and that
  attempt is its last: no further attempt and no wait follow it. Every response a real
  \<open>fetch\<close> builds for such a status is of that kind. Against an endpoint that always
  answers 401, \<open>send\<close> makes exactly one attempt and returns false.
\<close>

theorem send_client_error_no_retry:
  "(\<forall>k<3. (\<forall>j<k. retryable (net j)) \<and> client_error (net k) \<longrightarrow>
       fst (send tr batch net) = Inr False \<and> attempts (snd (send tr batch net)) = Suc k \<and>
       schedule (snd (send tr batch net)) = plan (Suc k))
   \<and> (400 \<le> st \<and> st < 500 \<longrightarrow> client_error (Resolved (http_response st reason)))
   \<and> send tr batch (\<lambda>k. Resolved (http_response 401 ''Unauthorized'')) =
       (Inr False, [Fetch (post tr batch), Console (ClientError 401 ''Unauthorized'')])"
proof -
  have stop: "\<forall>k<3. (\<forall>j<k. retryable (net j)) \<and> client_error (net k) \<longrightarrow>
       fst (send tr batch net) = Inr False \<and> attempts (snd (send tr batch net)) = Suc k \<and>
       schedule (snd (send tr batch net)) = plan (Suc k)"
  proof (intro allI impI)
    fix k
    assume k: "k < 3" and h: "(\<forall>j<k. retryable (net j)) \<and> client_error (net k)"
    then have n: "\<not> retryable (net k)"
      by (simp_all add: client_error_not_retryable)
    from send_stops_at [where net = net and k = k and tr = tr and batch = batch, OF k _ n] h
    show "fst (send tr batch net) = Inr False \<and> attempts (snd (send tr batch net)) = Suc k \<and>
       schedule (snd (send tr batch net)) = plan (Suc k)" by simp
  qed
  have always: "send tr batch (\<lambda>k. Resolved (http_response 401 ''Unauthorized'')) =
       (Inr False, [Fetch (post tr batch), Console (ClientError 401 ''Unauthorized'')])"
    by (simp add: send_def send_loop.simps [of _ _ _ 0] MAX_RETRIES_def http_response_def)
  from stop client_error_http [of st reason] always show ?thesis by blast
qed

theorem send_client_error_no_retry_witness:
  "fst (send (new_transport None False) test_batch
          (\<lambda>k. Resolved (http_response (if k = 0 then 500 else 404) []))) = Inr False
   \<and> schedule (snd (send (new_transport None False) test_batch
          (\<lambda>k. Resolved (http_response (if k = 0 then 500 else 404) []))))
     = [Attempt, Wait 1000, Attempt]"
proof -
  let ?net = "\<lambda>k::nat. Resolved (http_response (if k = 0 then 500 else 404) [])"
  have hyp: "(\<forall>j<1. retryable (?net j)) \<and> client_error (?net 1)"
    by (auto simp: retryable_def client_error_def http_response_def)
  have one: "(1::nat) < 3" by simp
  from send_client_error_no_retry [of ?net "new_transport None False" test_batch]
  have "\<forall>k<3. (\<forall>j<k. retryable (?net j)) \<and> client_error (?net k) \<longrightarrow>
       fst (send (new_transport None False) test_batch ?net) = Inr False \<and>
       attempts (snd (send (new_transport None False) test_batch ?net)) = Suc k \<and>
       schedule (snd (send (new_transport None False) test_batch ?net)) = plan (Suc k)"
    by blast
  with one hyp have "fst (send (new_transport None False) test_batch ?net) = Inr False \<and>
       schedule (snd (send (new_transport None False) test_batch ?net)) = plan (Suc 1)"
    by blast
  then show ?thesis by (simp add: RETRY_DELAY_MS_def)
qed

section \<open>Collector: what each operation changes\<close>

lemma flush_empty: "queue (tel w) = [] \<Longrightarrow> flush w = (w, None)"
  by (simp add: flush_def)

lemma flush_nonempty:
  "queue (tel w) \<noteq> [] \<Longrightarrow>
   flush w =
     (w\<lparr>tel := (tel w)\<lparr>queue := []\<rparr>,
        handed := handed w @
          [\<lparr>batch_apiKey = apiKey (tel w), batch_mcpServerId = mcpServerId (tel w),
            batch_timestamp = clock w, invocations = queue (tel w)\<rparr>]\<rparr>,
      Some \<lparr>batch_apiKey = apiKey (tel w), batch_mcpServerId = mcpServerId (tel w),
            batch_timestamp = clock w, invocations = queue (tel w)\<rparr>)"
  by (simp add: flush_def Let_def)

lemma flush_fields:
  "timers (fst (flush w)) = timers w"
  "clock (fst (flush w)) = clock w"
  "uuids (fst (flush w)) = uuids w"
  "listeners (fst (flush w)) = listeners w"
  "next_handle (fst (flush w)) = next_handle w"
  "console (fst (flush w)) = console w"
  "queue (tel (fst (flush w))) = []"
  "flushTimer (tel (fst (flush w))) = flushTimer (tel w)"
  "batchSize (tel (fst (flush w))) = batchSize (tel w)"
  "flushInterval (tel (fst (flush w))) = flushInterval (tel w)"
  "metadata (tel (fst (flush w))) = metadata (tel w)"
  "all_records (fst (flush w)) = all_records w"
  by (simp_all add: flush_def Let_def all_records_def)

lemma flush_handed:
  "handed (fst (flush w)) = handed w @ (case snd (flush w) of None \<Rightarrow> [] | Some b \<Rightarrow> [b])"
  by (simp add: flush_def Let_def)

lemma log_fields:
  "timers (log i w) = timers w"
  "clock (log i w) = clock w"
  "uuids (log i w) = uuids w"
  "listeners (log i w) = listeners w"
  "flushTimer (tel (log i w)) = flushTimer (tel w)"
  "batchSize (tel (log i w)) = batchSize (tel w)"
  "metadata (tel (log i w)) = metadata (tel w)"
  "all_records (log i w) = all_records w @ [i]"
  by (simp_all add: log_def flush_def Let_def all_records_def)

lemma log_below:
  "int (length (queue (tel w))) + 1 < batchSize (tel w) \<Longrightarrow>
   queue (tel (log i w)) = queue (tel w) @ [i] \<and> handed (log i w) = handed w"
  by (simp add: log_def Let_def)

lemma log_reaches:
  "batchSize (tel w) \<le> int (length (queue (tel w))) + 1 \<Longrightarrow>
   queue (tel (log i w)) = [] \<and>
   handed (log i w) = handed w @
     [\<lparr>batch_apiKey = apiKey (tel w), batch_mcpServerId = mcpServerId (tel w),
       batch_timestamp = clock w, invocations = queue (tel w) @ [i]\<rparr>]"
  by (simp add: log_def flush_def Let_def)

lemma setServerInfo_fields:
  "timers (setServerInfo n v w) = timers w"
  "handed (setServerInfo n v w) = handed w"
  "queue (tel (setServerInfo n v w)) = queue (tel w)"
  "flushTimer (tel (setServerInfo n v w)) = flushTimer (tel w)"
  "batchSize (tel (setServerInfo n v w)) = batchSize (tel w)"
  by (simp_all add: setServerInfo_def)

lemma shutdown_flush:
  "shutdown w =
     flush (case flushTimer (tel w) of
              None \<Rightarrow> w
            | Some h \<Rightarrow> (clearInterval h w)\<lparr>tel := (tel (clearInterval h w))\<lparr>flushTimer := None\<rparr>\<rparr>)"
  by (simp add: shutdown_def Let_def split: option.splits)

lemma shutdown_fields:
  "batchSize (tel (fst (shutdown w))) = batchSize (tel w)"
  "metadata (tel (fst (shutdown w))) = metadata (tel w)"
  "flushTimer (tel (fst (shutdown w))) = None"
  "queue (tel (fst (shutdown w))) = []"
  "listeners (fst (shutdown w)) = listeners w"
  by (simp_all add: shutdown_flush flush_fields clearInterval_def split: option.splits)

lemma shutdown_all_records: "all_records (fst (shutdown w)) = all_records w"
  by (cases "flushTimer (tel w)")
     (simp_all add: shutdown_flush flush_fields, simp add: all_records_def clearInterval_def)

lemma shutdown_timers:
  "timers (fst (shutdown w)) =
     (case flushTimer (tel w) of None \<Rightarrow> timers w
      | Some h \<Rightarrow> filter (\<lambda>t. handle t \<noteq> h) (timers w))"
  by (simp add: shutdown_flush flush_fields clearInterval_def split: option.splits)

lemma shutdown_handed:
  "handed (fst (shutdown w)) = handed w @ (case snd (shutdown w) of None \<Rightarrow> [] | Some b \<Rightarrow> [b])"
  by (cases "flushTimer (tel w)")
     (simp_all add: shutdown_flush flush_handed, simp add: clearInterval_def)

lemma shutdown_promise:
  "snd (shutdown w) =
     (if queue (tel w) = [] then None
      else Some \<lparr>batch_apiKey = apiKey (tel w), batch_mcpServerId = mcpServerId (tel w),
                 batch_timestamp = clock w, invocations = queue (tel w)\<rparr>)"
  by (simp add: shutdown_flush flush_def Let_def clearInterval_def split: option.splits)

text \<open>Folding an operation that keeps a property keeps it.\<close>

lemma fold_preserves:
  "(\<And>x w. x \<in> set xs \<Longrightarrow> P w \<Longrightarrow> P (f x w)) \<Longrightarrow> P w \<Longrightarrow> P (fold f xs w)"
  by (induction xs arbitrary: w) simp_all

lemma tick_fields:
  "batchSize (tel (tick w)) = batchSize (tel w)"
  "metadata (tel (tick w)) = metadata (tel w)"
  "flushTimer (tel (tick w)) = flushTimer (tel w)"
  "listeners (tick w) = listeners w"
  "all_records (tick w) = all_records w"
  "map handle (timers (tick w)) = map handle (timers w)"
proof -
  define now where "now = Suc (clock w)"
  define w1 where "w1 = w\<lparr>clock := now,
      timers := map (\<lambda>t. if due t \<le> now then t\<lparr>due := now + period t\<rparr> else t) (timers w)\<rparr>"
  define fired where "fired = filter (\<lambda>t. due t \<le> now) (timers w)"
  have t: "tick w = fold (\<lambda>t w'. fst (flush w')) fired w1"
    unfolding tick_def Let_def now_def w1_def fired_def by (rule refl)
  have "batchSize (tel (fold (\<lambda>t w'. fst (flush w')) fired w1)) = batchSize (tel w)
      \<and> metadata (tel (fold (\<lambda>t w'. fst (flush w')) fired w1)) = metadata (tel w)
      \<and> flushTimer (tel (fold (\<lambda>t w'. fst (flush w')) fired w1)) = flushTimer (tel w)
      \<and> listeners (fold (\<lambda>t w'. fst (flush w')) fired w1) = listeners w
      \<and> all_records (fold (\<lambda>t w'. fst (flush w')) fired w1) = all_records w
      \<and> map handle (timers (fold (\<lambda>t w'. fst (flush w')) fired w1)) = map handle (timers w)"
    by (rule fold_preserves [where P = "\<lambda>w'. batchSize (tel w') = batchSize (tel w)
      \<and> metadata (tel w') = metadata (tel w) \<and> flushTimer (tel w') = flushTimer (tel w)
      \<and> listeners w' = listeners w
      \<and> all_records w' = all_records w \<and> map handle (timers w') = map handle (timers w)"])
       (simp_all add: flush_fields, simp add: w1_def all_records_def o_def)
  with t show "batchSize (tel (tick w)) = batchSize (tel w)"
    "metadata (tel (tick w)) = metadata (tel w)"
    "flushTimer (tel (tick w)) = flushTimer (tel w)"
    "listeners (tick w) = listeners w"
    "all_records (tick w) = all_records w"
    "map handle (timers (tick w)) = map handle (timers w)" by simp_all
qed

lemma tick_no_timers: "timers w = [] \<Longrightarrow> tick w = w\<lparr>clock := Suc (clock w)\<rparr>"
  by (simp add: tick_def Let_def)

lemma advance_no_timers: "timers w = [] \<Longrightarrow> advance n w = w\<lparr>clock := clock w + n\<rparr>"
  by (induction n arbitrary: w) (simp_all add: tick_no_timers)


lemma emit_preserves:
  "(\<And>w. P w \<Longrightarrow> P (fst (shutdown w))) \<Longrightarrow> P w \<Longrightarrow> P (emit e w)"
  unfolding emit_def by (rule fold_preserves) simp_all

lemma exec_Trace:
  "(\<exists>r. exec (Trace name script outcome options) w =
          log r (fold exec script (w\<lparr>uuids := Suc (uuids w)\<rparr>)))
   \<or> exec (Trace name script outcome options) w =
        fold exec script (w\<lparr>uuids := Suc (uuids w)\<rparr>)"
proof (cases outcome)
  case (Inl err)
  then show ?thesis
    by (cases "extractError err") (simp_all add: trace_def Let_def, blast)
next
  case (Inr result)
  then show ?thesis by (simp add: trace_def Let_def) blast
qed

text \<open>A property that every method, a tick and a UUID draw keep is kept by every program.\<close>

lemma exec_preserves:
  assumes "\<And>n v w. P w \<Longrightarrow> P (setServerInfo n v w)"
    and "\<And>i w. P w \<Longrightarrow> P (log i w)"
    and "\<And>w. P w \<Longrightarrow> P (fst (flush w))"
    and "\<And>w. P w \<Longrightarrow> P (fst (shutdown w))"
    and "\<And>w. P w \<Longrightarrow> P (tick w)"
    and "\<And>w. P w \<Longrightarrow> P (w\<lparr>uuids := Suc (uuids w)\<rparr>)"
  shows "P w \<Longrightarrow> P (exec x w)"
proof (induction x arbitrary: w)
  case (Trace name script outcome options)
  have "P (fold exec script (w\<lparr>uuids := Suc (uuids w)\<rparr>))"
    by (rule fold_preserves) (simp_all add: Trace assms(6))
  with exec_Trace [of name script outcome options w] show ?case
    by (auto simp: assms(2))
qed (simp_all add: assms emit_preserves)

lemma run_preserves:
  assumes "\<And>n v w. P w \<Longrightarrow> P (setServerInfo n v w)"
    and "\<And>i w. P w \<Longrightarrow> P (log i w)"
    and "\<And>w. P w \<Longrightarrow> P (fst (flush w))"
    and "\<And>w. P w \<Longrightarrow> P (fst (shutdown w))"
    and "\<And>w. P w \<Longrightarrow> P (tick w)"
    and "\<And>w. P w \<Longrightarrow> P (w\<lparr>uuids := Suc (uuids w)\<rparr>)"
  shows "P w \<Longrightarrow> P (run ops w)"
  unfolding run_def
  by (rule fold_preserves) (simp_all add: exec_preserves [where P = P, OF assms])


section \<open>Invariants of every program\<close>

lemma or_number_nonzero: "d \<noteq> 0 \<Longrightarrow> or_number v d \<noteq> 0"
  by (simp add: or_number_def split: option.splits number.splits)

lemma constructor_fields:
  "queue (tel (constructor config now)) = []"
  "handed (constructor config now) = []"
  "batchSize (tel (constructor config now)) = or_number (cfg_batchSize config) DEFAULT_BATCH_SIZE"
  "flushInterval (tel (constructor config now)) =
     or_number (cfg_flushInterval config) DEFAULT_FLUSH_INTERVAL"
  "flushTimer (tel (constructor config now)) = Some 0"
  "map handle (timers (constructor config now)) = [0]"
  by (simp_all add: constructor_def Let_def startFlushTimer_def setupShutdownHooks_def
      split: option.splits)

lemma constructor_metadata:
  "metadata (tel (constructor config now)) =
     \<lparr>serverName = None, serverVersion = None,
      meta_mcpServerId =
        (case cfg_mcpServerId config of None \<Rightarrow> None
         | Some s \<Rightarrow> if s = [] then None else Some s)\<rparr>"
  by (simp add: constructor_def Let_def startFlushTimer_def setupShutdownHooks_def
      split: option.splits)

lemma batchSize_run: "batchSize (tel (run ops w)) = batchSize (tel w)"
  by (rule run_preserves [where P = "\<lambda>w'. batchSize (tel w') = batchSize (tel w)"])
     (simp_all add: setServerInfo_fields log_fields flush_fields shutdown_fields tick_fields)

lemma batchSize_nonzero: "batchSize (tel (run ops (constructor config now))) \<noteq> 0"
  by (simp add: batchSize_run constructor_fields or_number_nonzero DEFAULT_BATCH_SIZE_def)

lemma shutdown_clears:
  "timers_owned w \<Longrightarrow> timers (fst (shutdown w)) = []"
  by (auto simp: timers_owned_def shutdown_timers filter_empty_conv split: option.splits)

lemma timers_owned_run: "timers_owned w \<Longrightarrow> timers_owned (run ops w)"
proof (rule run_preserves [where P = timers_owned])
  fix w assume "timers_owned w"
  then show "timers_owned (fst (shutdown w))"
    by (simp add: shutdown_clears timers_owned_def)
next
  fix w assume "timers_owned w"
  then show "timers_owned (tick w)"
    by (simp add: timers_owned_def tick_fields)
qed (simp_all add: timers_owned_def setServerInfo_fields log_fields flush_fields)

lemma timers_owned_constructor: "timers_owned (constructor config now)"
  by (simp add: timers_owned_def constructor_fields)

lemma no_timers_run: "timers w = [] \<Longrightarrow> timers (run ops w) = []"
  by (rule run_preserves [where P = "\<lambda>w'. timers w' = []"])
     (simp_all add: setServerInfo_fields log_fields flush_fields shutdown_timers tick_no_timers
        split: option.splits)

lemma flush_batches_nonempty: "batches_nonempty w \<Longrightarrow> batches_nonempty (fst (flush w))"
  by (simp add: batches_nonempty_def flush_def Let_def)

lemma batches_nonempty_run: "batches_nonempty w \<Longrightarrow> batches_nonempty (run ops w)"
proof (rule run_preserves [where P = batches_nonempty])
  fix i w assume "batches_nonempty w"
  then show "batches_nonempty (log i w)"
    by (simp add: batches_nonempty_def log_def flush_def Let_def)
next
  fix w assume "batches_nonempty w"
  then show "batches_nonempty (fst (shutdown w))"
    by (auto simp: batches_nonempty_def shutdown_handed shutdown_promise)
next
  fix w assume w: "batches_nonempty w"
  show "batches_nonempty (tick w)"
    unfolding tick_def Let_def
    by (rule fold_preserves)
       (simp add: flush_batches_nonempty, use w in \<open>simp add: batches_nonempty_def\<close>)
qed (simp_all add: batches_nonempty_def setServerInfo_fields flush_def Let_def)

section \<open>Tracing\<close>

lemma recordable_cases:
  "recordable (Inr result)"
  "recordable (Inl (JError n m ps))"
  "js_String err = Inr str \<Longrightarrow> recordable (Inl err)"
  by (cases err; simp add: recordable_def)+

text \<open>What \<open>trace\<close> settles with, for every operation.\<close>

lemma trace_outcome:
  "fst (trace name fn options w) =
     (case fst (fn (w\<lparr>uuids := Suc (uuids w)\<rparr>)) of
        Inr result \<Rightarrow> Inr result
      | Inl err \<Rightarrow> (case extractError err of Inl thrown \<Rightarrow> Inl thrown | Inr e \<Rightarrow> Inl err))"
  by (simp add: trace_def Let_def split: prod.splits sum.splits)

lemma trace_logs:
  assumes "recordable (fst (fn (w\<lparr>uuids := Suc (uuids w)\<rparr>)))"
  shows "\<exists>r. snd (trace name fn options w) = log r (snd (fn (w\<lparr>uuids := Suc (uuids w)\<rparr>)))
     \<and> success r = (\<not> isl (fst (fn (w\<lparr>uuids := Suc (uuids w)\<rparr>))))
     \<and> inv_output r =
         (case fst (fn (w\<lparr>uuids := Suc (uuids w)\<rparr>)) of
            Inl err \<Rightarrow> None | Inr result \<Rightarrow> Some (extractOutput result))
     \<and> inv_error r =
         (case fst (fn (w\<lparr>uuids := Suc (uuids w)\<rparr>)) of
            Inl err \<Rightarrow> Some (projr (extractError err)) | Inr result \<Rightarrow> None)"
proof (cases "fn (w\<lparr>uuids := Suc (uuids w)\<rparr>)")
  case (Pair out w1)
  show ?thesis
  proof (cases out)
    case (Inl err)
    with assms Pair obtain e where "extractError err = Inr e"
      by (cases "extractError err") (simp_all add: recordable_def)
    with Pair Inl show ?thesis
      by (auto simp: trace_def Let_def intro!: exI)
  next
    case (Inr result)
    with Pair show ?thesis
      by (auto simp: trace_def Let_def intro!: exI)
  qed
qed

lemma trace_skips:
  "\<not> recordable (fst (fn (w\<lparr>uuids := Suc (uuids w)\<rparr>))) \<Longrightarrow>
   snd (trace name fn options w) = snd (fn (w\<lparr>uuids := Suc (uuids w)\<rparr>))"
  by (cases "fn (w\<lparr>uuids := Suc (uuids w)\<rparr>)")
     (auto simp: trace_def Let_def recordable_def split: sum.splits)

text \<open>
  C1 says that \<open>trace\<close> settles exactly as the operation does. By \<open>trace_outcome\<close> the
  code does so for every operation that resolves and for every operation that throws a
  value \<open>extractError\<close> accepts, and misses it otherwise. An operation throws the plain
  object \<open>{toString: 1}\<close>. In the \<open>catch\<close> block \<open>extractError\<close> calls
  \<open>String(error)\<close>, which throws a TypeError before \<open>throw error\<close> is reached:
  \<open>trace\<close> rejects with that TypeError, not with the value the operation threw, and
  logs no record.
\<close>

theorem trace_rejects_with_conversion_error:
  "fst (trace ''x'' (\<lambda>w. (Inl (JObject [(''toString'', JNumber 1)]), w)) None
          (constructor test_config 0)) = Inl cannot_convert
   \<and> cannot_convert \<noteq> JObject [(''toString'', JNumber 1)]
   \<and> all_records (snd (trace ''x'' (\<lambda>w. (Inl (JObject [(''toString'', JNumber 1)]), w)) None
          (constructor test_config 0))) = []"
  by (simp add: trace_def Let_def cannot_convert_def all_records_def constructor_fields)

text \<open>
  C6. Whenever \<open>trace\<close> logs a record, which it does for every operation that resolves
  and for every operation that throws a value \<open>extractError\<close> accepts, it logs exactly
  one, after whatever the operation logged. Its \<open>success\<close> flag says whether the
  operation resolved. When it is true the record has an \<open>output\<close> and no \<open>error\<close>; when it
  is false it has an \<open>error\<close> and no \<open>output\<close>. In the one other case, a thrown value that
  \<open>String\<close> cannot convert, \<open>trace\<close> logs no record at all.
\<close>

theorem trace_record_output_xor_error:
  "(recordable (fst (fn (w\<lparr>uuids := Suc (uuids w)\<rparr>))) \<longrightarrow>
     (\<exists>r. all_records (snd (trace name fn options w)) =
            all_records (snd (fn (w\<lparr>uuids := Suc (uuids w)\<rparr>))) @ [r]
        \<and> success r = (\<not> isl (fst (fn (w\<lparr>uuids := Suc (uuids w)\<rparr>))))
        \<and> (success r \<longrightarrow> inv_output r \<noteq> None \<and> inv_error r = None)
        \<and> (\<not> success r \<longrightarrow> inv_error r \<noteq> None \<and> inv_output r = None)))
   \<and> (\<not> recordable (fst (fn (w\<lparr>uuids := Suc (uuids w)\<rparr>))) \<longrightarrow>
        all_records (snd (trace name fn options w)) =
          all_records (snd (fn (w\<lparr>uuids := Suc (uuids w)\<rparr>))))
   \<and> recordable (Inr result)
   \<and> recordable (Inl (JError n m ps))
   \<and> (js_String err = Inr str \<longrightarrow> recordable (Inl err))"
proof -
  have a: "recordable (fst (fn (w\<lparr>uuids := Suc (uuids w)\<rparr>))) \<longrightarrow>
     (\<exists>r. all_records (snd (trace name fn options w)) =
            all_records (snd (fn (w\<lparr>uuids := Suc (uuids w)\<rparr>))) @ [r]
        \<and> success r = (\<not> isl (fst (fn (w\<lparr>uuids := Suc (uuids w)\<rparr>))))
        \<and> (success r \<longrightarrow> inv_output r \<noteq> None \<and> inv_error r = None)
        \<and> (\<not> success r \<longrightarrow> inv_error r \<noteq> None \<and> inv_output r = None))"
  proof
    assume rec: "recordable (fst (fn (w\<lparr>uuids := Suc (uuids w)\<rparr>)))"
    from trace_logs [where fn = fn and w = w and name = name and options = options, OF rec]
    obtain r where
      r: "snd (trace name fn options w) = log r (snd (fn (w\<lparr>uuids := Suc (uuids w)\<rparr>)))"
        "success r = (\<not> isl (fst (fn (w\<lparr>uuids := Suc (uuids w)\<rparr>))))"
        "inv_output r = (case fst (fn (w\<lparr>uuids := Suc (uuids w)\<rparr>)) of
              Inl err \<Rightarrow> None | Inr result \<Rightarrow> Some (extractOutput result))"
        "inv_error r = (case fst (fn (w\<lparr>uuids := Suc (uuids w)\<rparr>)) of
              Inl err \<Rightarrow> Some (projr (extractError err)) | Inr result \<Rightarrow> None)"
      by blast
    show "\<exists>r. all_records (snd (trace name fn options w)) =
            all_records (snd (fn (w\<lparr>uuids := Suc (uuids w)\<rparr>))) @ [r]
        \<and> success r = (\<not> isl (fst (fn (w\<lparr>uuids := Suc (uuids w)\<rparr>))))
        \<and> (success r \<longrightarrow> inv_output r \<noteq> None \<and> inv_error r = None)
        \<and> (\<not> success r \<longrightarrow> inv_error r \<noteq> None \<and> inv_output r = None)"
      by (rule exI [of _ r]) (simp add: r log_fields split: sum.splits)
  qed
  from a trace_skips [where fn = fn and w = w and name = name and options = options]
  show ?thesis by (simp add: recordable_cases)
qed

theorem trace_record_output_xor_error_witness:
  "\<exists>r. all_records (snd (trace ''x'' (\<lambda>w. (Inl (JError ''Error'' ''boom'' []), w)) None
            (constructor test_config 0))) = [r]
     \<and> \<not> success r \<and> inv_error r \<noteq> None \<and> inv_output r = None"
proof -
  let ?fn = "\<lambda>w::world. (Inl (JError ''Error'' ''boom'' []) :: jsval + jsval, w)"
  let ?w = "constructor test_config 0"
  have rec: "recordable (fst (?fn (?w\<lparr>uuids := Suc (uuids ?w)\<rparr>)))"
    by (simp add: recordable_def)
  from trace_record_output_xor_error [of ?fn ?w "''x''" None] rec
  obtain r where r: "all_records (snd (trace ''x'' ?fn None ?w)) =
        all_records (snd (?fn (?w\<lparr>uuids := Suc (uuids ?w)\<rparr>))) @ [r]"
      "success r = (\<not> isl (fst (?fn (?w\<lparr>uuids := Suc (uuids ?w)\<rparr>))))"
      "\<not> success r \<longrightarrow> inv_error r \<noteq> None \<and> inv_output r = None"
    by blast
  have e: "all_records (?w\<lparr>uuids := Suc (uuids ?w)\<rparr>) = []"
    by (simp add: all_records_def constructor_fields)
  from r e show ?thesis by (intro exI [of _ r]) simp
qed

lemma extractOutput_cases:
  "extractOutput result =
     (if has_property ''status'' result
      then \<lparr>out_status = get result ''status'', out_body = get result ''data''\<rparr>
      else \<lparr>out_status = JUndefined, out_body = result\<rparr>)"
  by (cases result) (simp_all add: extractOutput_def)

text \<open>
  C7. When the operation resolves with \<open>result\<close>, the record \<open>trace\<close> logs has the
  output \<open>{status: result.status, body: result.data}\<close> if \<open>result\<close> is an object with
  a \<open>status\<close> property, and \<open>{body: result}\<close> otherwise. The objects with a
  \<open>status\<close> property are the plain objects and Error instances that carry one; null,
  arrays and primitive values never are. Tracing an operation that resolves with 42 logs
  a record whose output body is 42.
\<close>

theorem trace_output_extraction:
  "(fst (fn (w\<lparr>uuids := Suc (uuids w)\<rparr>)) = Inr result \<longrightarrow>
      (\<exists>r. all_records (snd (trace name fn options w)) =
              all_records (snd (fn (w\<lparr>uuids := Suc (uuids w)\<rparr>))) @ [r]
         \<and> inv_output r =
             Some (if has_property ''status'' result
                   then \<lparr>out_status = get result ''status'', out_body = get result ''data''\<rparr>
                   else \<lparr>out_status = JUndefined, out_body = result\<rparr>)))
   \<and> has_property ''status'' result =
       (case result of
          JObject ps \<Rightarrow> ''status'' \<in> set (map fst ps)
        | JError n m ps \<Rightarrow> ''status'' \<in> set (map fst ps)
        | _ \<Rightarrow> False)
   \<and> map inv_output (all_records (snd (trace ''x'' (\<lambda>w'. (Inr (JNumber 42), w')) None w))) =
       map inv_output (all_records w) @ [Some \<lparr>out_status = JUndefined, out_body = JNumber 42\<rparr>]"
proof -
  have a: "fst (fn (w\<lparr>uuids := Suc (uuids w)\<rparr>)) = Inr result \<longrightarrow>
      (\<exists>r. all_records (snd (trace name fn options w)) =
              all_records (snd (fn (w\<lparr>uuids := Suc (uuids w)\<rparr>))) @ [r]
         \<and> inv_output r =
             Some (if has_property ''status'' result
                   then \<lparr>out_status = get result ''status'', out_body = get result ''data''\<rparr>
                   else \<lparr>out_status = JUndefined, out_body = result\<rparr>))"
  proof
    assume res: "fst (fn (w\<lparr>uuids := Suc (uuids w)\<rparr>)) = Inr result"
    then have "recordable (fst (fn (w\<lparr>uuids := Suc (uuids w)\<rparr>)))"
      by (simp add: recordable_def)
    from trace_logs [where fn = fn and w = w and name = name and options = options, OF this]
    obtain r where
      r: "snd (trace name fn options w) = log r (snd (fn (w\<lparr>uuids := Suc (uuids w)\<rparr>)))"
        "inv_output r = (case fst (fn (w\<lparr>uuids := Suc (uuids w)\<rparr>)) of
            Inl err \<Rightarrow> None | Inr result \<Rightarrow> Some (extractOutput result))"
      by blast
    show "\<exists>r. all_records (snd (trace name fn options w)) =
              all_records (snd (fn (w\<lparr>uuids := Suc (uuids w)\<rparr>))) @ [r]
         \<and> inv_output r =
             Some (if has_property ''status'' result
                   then \<lparr>out_status = get result ''status'', out_body = get result ''data''\<rparr>
                   else \<lparr>out_status = JUndefined, out_body = result\<rparr>)"
      by (rule exI [of _ r]) (simp add: r res log_fields extractOutput_cases)
  qed
  have b: "has_property ''status'' result =
       (case result of
          JObject ps \<Rightarrow> ''status'' \<in> set (map fst ps)
        | JError n m ps \<Rightarrow> ''status'' \<in> set (map fst ps)
        | _ \<Rightarrow> False)"
    by (cases result) simp_all
  have c: "map inv_output (all_records (snd (trace ''x'' (\<lambda>w'. (Inr (JNumber 42), w')) None w))) =
       map inv_output (all_records w) @ [Some \<lparr>out_status = JUndefined, out_body = JNumber 42\<rparr>]"
    by (simp add: trace_def Let_def log_fields extractOutput_def, simp add: all_records_def)
  from a b c show ?thesis by blast
qed


theorem trace_output_extraction_witness:
  "\<exists>r. all_records (snd (trace ''x''
            (\<lambda>w. (Inr (JObject [(''status'', JNumber 200), (''data'', JString ''ok'')]), w)) None
            (constructor test_config 0))) = [r]
     \<and> inv_output r = Some \<lparr>out_status = JNumber 200, out_body = JString ''ok''\<rparr>"
proof -
  let ?res = "JObject [(''status'', JNumber 200), (''data'', JString ''ok'')]"
  let ?fn = "\<lambda>w::world. (Inr ?res :: jsval + jsval, w)"
  let ?w = "constructor test_config 0"
  have h: "fst (?fn (?w\<lparr>uuids := Suc (uuids ?w)\<rparr>)) = Inr ?res" by simp
  from trace_output_extraction [where fn = ?fn and w = ?w and result = ?res and name = "''x''"
      and options = None] h
  obtain r where r: "all_records (snd (trace ''x'' ?fn None ?w)) =
        all_records (snd (?fn (?w\<lparr>uuids := Suc (uuids ?w)\<rparr>))) @ [r]"
      "inv_output r =
         Some (if has_property ''status'' ?res
               then \<lparr>out_status = get ?res ''status'', out_body = get ?res ''data''\<rparr>
               else \<lparr>out_status = JUndefined, out_body = ?res\<rparr>)"
    by blast
  have e: "all_records (?w\<lparr>uuids := Suc (uuids ?w)\<rparr>) = []"
    by (simp add: all_records_def constructor_fields)
  from r e show ?thesis by (intro exI [of _ r]) (simp add: read_prop_def)
qed

section \<open>Size-triggered flush\<close>

lemma logs_below:
  "int (length (queue (tel w))) + int (length invs) < batchSize (tel w) \<Longrightarrow>
   queue (tel (fold log invs w)) = queue (tel w) @ invs \<and>
   handed (fold log invs w) = handed w \<and>
   batchSize (tel (fold log invs w)) = batchSize (tel w) \<and>
   apiKey (tel (fold log invs w)) = apiKey (tel w) \<and>
   mcpServerId (tel (fold log invs w)) = mcpServerId (tel w) \<and>
   clock (fold log invs w) = clock w"
proof (induction invs arbitrary: w)
  case Nil
  then show ?case by simp
next
  case (Cons i invs)
  then have b: "int (length (queue (tel w))) + 1 < batchSize (tel w)" by simp
  have st: "queue (tel (log i w)) = queue (tel w) @ [i]" "handed (log i w) = handed w"
    "batchSize (tel (log i w)) = batchSize (tel w)" "apiKey (tel (log i w)) = apiKey (tel w)"
    "mcpServerId (tel (log i w)) = mcpServerId (tel w)" "clock (log i w) = clock w"
    using b by (simp_all add: log_def Let_def)
  with Cons.prems have "int (length (queue (tel (log i w)))) + int (length invs)
      < batchSize (tel (log i w))" by simp
  from Cons.IH [OF this] st show ?case by simp
qed

lemma run_Logs: "run (map Log invs) w = fold log invs w"
  by (induction invs arbitrary: w) (simp_all add: run_def)


lemma run_Nil: "run [] w = w"
  by (simp add: run_def)

lemma test_world:
  "constructor (test_config\<lparr>cfg_batchSize := Some (Num 2), cfg_flushInterval := Some (Num 3)\<rparr>) 0 =
     \<lparr>tel = \<lparr>apiKey = ''test-key'', mcpServerId = None,
             transport = \<lparr>endpoint = DEFAULT_ENDPOINT, transport_debug = False\<rparr>,
             queue = [], batchSize = 2, flushInterval = 3, flushTimer = Some 0, debug = False,
             metadata = \<lparr>serverName = None, serverVersion = None, meta_mcpServerId = None\<rparr>\<rparr>,
      clock = 0, uuids = 0, timers = [\<lparr>handle = 0, period = 3, due = 3\<rparr>], next_handle = Suc 0,
      listeners = [''beforeExit'', ''SIGINT'', ''SIGTERM''], handed = [], console = []\<rparr>"
  by (simp add: constructor_def test_config_def Let_def startFlushTimer_def
      setupShutdownHooks_def new_transport_def or_number_def timer_delay_def)

text \<open>
  C4. Take a collector built by the constructor, after any program, at a moment when its
  queue is empty. Logging fewer invocations than \<open>batchSize\<close> leaves exactly those
  records in the queue, in logging order, and hands nothing to the transport. Logging
  exactly \<open>batchSize\<close> invocations hands exactly one batch to the transport, holding
  those records in logging order, and leaves the queue empty.
\<close>

theorem size_triggered_flush:
  assumes "w = run ops (constructor config now)" and "queue (tel w) = []"
  shows "(int (length invs) < batchSize (tel w) \<longrightarrow>
            queue (tel (run (map Log invs) w)) = invs \<and>
            handed (run (map Log invs) w) = handed w)
       \<and> (int (length invs) = batchSize (tel w) \<longrightarrow>
            queue (tel (run (map Log invs) w)) = [] \<and>
            handed (run (map Log invs) w) = handed w @
              [\<lparr>batch_apiKey = apiKey (tel w), batch_mcpServerId = mcpServerId (tel w),
                batch_timestamp = clock w, invocations = invs\<rparr>])"
proof (intro conjI impI)
  assume "int (length invs) < batchSize (tel w)"
  with assms(2) logs_below [of w invs]
  show "queue (tel (run (map Log invs) w)) = invs" "handed (run (map Log invs) w) = handed w"
    by (simp_all add: run_Logs)
next
  assume full: "int (length invs) = batchSize (tel w)"
  from assms(1) have "batchSize (tel w) \<noteq> 0" by (simp add: batchSize_nonzero)
  with full have "invs \<noteq> []" by auto
  then obtain xs x where invs: "invs = xs @ [x]" by (metis rev_exhaust)
  with full assms(2) have "int (length (queue (tel w))) + int (length xs) < batchSize (tel w)"
    by simp
  from logs_below [OF this] assms(2)
  have xs: "queue (tel (fold log xs w)) = xs" "handed (fold log xs w) = handed w"
    "batchSize (tel (fold log xs w)) = batchSize (tel w)"
    "apiKey (tel (fold log xs w)) = apiKey (tel w)"
    "mcpServerId (tel (fold log xs w)) = mcpServerId (tel w)"
    "clock (fold log xs w) = clock w" by simp_all
  with full invs have "batchSize (tel (fold log xs w))
      \<le> int (length (queue (tel (fold log xs w)))) + 1" by simp
  moreover have "run (map Log invs) w = log x (fold log xs w)"
    unfolding invs run_Logs by simp
  ultimately show "queue (tel (run (map Log invs) w)) = []"
    "handed (run (map Log invs) w) = handed w @
        [\<lparr>batch_apiKey = apiKey (tel w), batch_mcpServerId = mcpServerId (tel w),
          batch_timestamp = clock w, invocations = invs\<rparr>]"
    using log_reaches [of "fold log xs w" x] xs invs by simp_all
qed

theorem size_triggered_flush_witness:
  "queue (tel (run (map Log [test_invocation 1])
      (constructor (test_config\<lparr>cfg_batchSize := Some (Num 2), cfg_flushInterval := Some (Num 3)\<rparr>) 0)))
     = [test_invocation 1]
   \<and> handed (run (map Log [test_invocation 1])
      (constructor (test_config\<lparr>cfg_batchSize := Some (Num 2), cfg_flushInterval := Some (Num 3)\<rparr>) 0))
     = []
   \<and> queue (tel (run (map Log [test_invocation 1, test_invocation 2])
      (constructor (test_config\<lparr>cfg_batchSize := Some (Num 2), cfg_flushInterval := Some (Num 3)\<rparr>) 0)))
     = []
   \<and> handed (run (map Log [test_invocation 1, test_invocation 2])
      (constructor (test_config\<lparr>cfg_batchSize := Some (Num 2), cfg_flushInterval := Some (Num 3)\<rparr>) 0))
     = [\<lparr>batch_apiKey = ''test-key'', batch_mcpServerId = None, batch_timestamp = 0,
         invocations = [test_invocation 1, test_invocation 2]\<rparr>]"
proof -
  let ?w = "constructor (test_config\<lparr>cfg_batchSize := Some (Num 2), cfg_flushInterval := Some (Num 3)\<rparr>) 0"
  have r: "?w = run [] ?w" by (simp add: run_Nil)
  have q: "queue (tel ?w) = []" by (simp add: constructor_fields)
  have one: "int (length [test_invocation 1]) < batchSize (tel ?w)"
    by (simp add: test_world)
  have two: "int (length [test_invocation 1, test_invocation 2]) = batchSize (tel ?w)"
    by (simp add: test_world)
  from size_triggered_flush [OF r q, of "[test_invocation 1]"] one
    size_triggered_flush [OF r q, of "[test_invocation 1, test_invocation 2]"] two
  show ?thesis by (simp add: test_world)
qed

section \<open>Flushing an empty queue\<close>

text \<open>
  C8. \<open>flush\<close> on an empty queue changes nothing: no batch is handed to the transport
  (so no \<open>fetch\<close> is made) and its promise waits for nothing. A batch that \<open>flush\<close>
  does hand over holds the whole queue, which is not empty. So every batch a collector has
  handed to the transport, after any program, has a non-empty \<open>invocations\<close>.
\<close>

theorem empty_flush_is_noop:
  "(queue (tel w) = [] \<longrightarrow> flush w = (w, None))
   \<and> (snd (flush w) = Some b \<longrightarrow> invocations b = queue (tel w) \<and> invocations b \<noteq> [])
   \<and> (\<forall>b \<in> set (handed (run ops (constructor config now))). invocations b \<noteq> [])"
proof -
  have "batches_nonempty (constructor config now)"
    by (simp add: batches_nonempty_def constructor_fields)
  then have "batches_nonempty (run ops (constructor config now))"
    by (rule batches_nonempty_run)
  then show ?thesis
    by (auto simp: batches_nonempty_def flush_def Let_def split: if_splits)
qed

theorem empty_flush_is_noop_witness:
  "flush (constructor test_config 0) = (constructor test_config 0, None)
   \<and> (\<exists>b. b \<in> set (handed (run [Log (test_invocation 1), Flush, Flush]
               (constructor test_config 0))) \<and> invocations b \<noteq> [])"
proof -
  have q: "queue (tel (constructor test_config 0)) = []" by (simp add: constructor_fields)
  have h: "handed (run [Log (test_invocation 1), Flush, Flush] (constructor test_config 0)) =
      [\<lparr>batch_apiKey = ''test-key'', batch_mcpServerId = None, batch_timestamp = 0,
        invocations = [test_invocation 1]\<rparr>]"
    by (simp add: run_def log_def flush_def Let_def constructor_def test_config_def
        startFlushTimer_def setupShutdownHooks_def or_number_def DEFAULT_BATCH_SIZE_def)
  from empty_flush_is_noop [of "constructor test_config 0" _ "[Log (test_invocation 1), Flush, Flush]"
      test_config 0] q h
  show ?thesis by auto
qed


section \<open>Shutdown\<close>

text \<open>
  C5. Take a collector built by the constructor, after any program. \<open>shutdown\<close> clears
  the flush timer, so that no interval timer is left, and then makes one final flush: the
  queue is drained into one batch handed to the transport (none when the queue is empty),
  and the promise of \<open>shutdown\<close> waits for the delivery of that batch. Whatever program
  runs afterwards, no timer is ever set again and the passing of time changes nothing but
  the clock: logging an invocation and letting any time pass hands no batch to the
  transport and leaves the record in the queue.
\<close>

theorem shutdown_stops_timer:
  assumes "w = run ops (constructor config now)"
  shows "timers (fst (shutdown w)) = [] \<and> flushTimer (tel (fst (shutdown w))) = None
     \<and> snd (shutdown w) =
         (if queue (tel w) = [] then None
          else Some \<lparr>batch_apiKey = apiKey (tel w), batch_mcpServerId = mcpServerId (tel w),
                     batch_timestamp = clock w, invocations = queue (tel w)\<rparr>)
     \<and> handed (fst (shutdown w)) =
         handed w @ (case snd (shutdown w) of None \<Rightarrow> [] | Some b \<Rightarrow> [b])
     \<and> queue (tel (fst (shutdown w))) = []
     \<and> timers (run ops' (fst (shutdown w))) = []
     \<and> advance n (run ops' (fst (shutdown w))) =
         (run ops' (fst (shutdown w)))\<lparr>clock := clock (run ops' (fst (shutdown w))) + n\<rparr>
     \<and> handed (advance n (log i (fst (shutdown w)))) = handed (log i (fst (shutdown w)))
     \<and> queue (tel (advance n (log i (fst (shutdown w))))) = queue (tel (log i (fst (shutdown w))))"
proof -
  from assms have "timers_owned w"
    by (simp add: timers_owned_run timers_owned_constructor)
  then have t: "timers (fst (shutdown w)) = []" by (rule shutdown_clears)
  then have later: "timers (run ops' (fst (shutdown w))) = []" by (rule no_timers_run)
  have "timers (log i (fst (shutdown w))) = []" by (simp add: log_fields t)
  then have "advance n (log i (fst (shutdown w))) =
      (log i (fst (shutdown w)))\<lparr>clock := clock (log i (fst (shutdown w))) + n\<rparr>"
    by (rule advance_no_timers)
  with t later advance_no_timers [OF later, of n] show ?thesis
    by (simp add: shutdown_fields shutdown_promise shutdown_handed)
qed

lemma advance_3: "advance 3 w = tick (tick (tick w))"
  by (simp add: numeral_3_eq_3)

theorem shutdown_stops_timer_witness:
  "handed (advance 3 (log (test_invocation 1)
      (constructor (test_config\<lparr>cfg_batchSize := Some (Num 2), cfg_flushInterval := Some (Num 3)\<rparr>) 0)))
     = [\<lparr>batch_apiKey = ''test-key'', batch_mcpServerId = None, batch_timestamp = 3,
         invocations = [test_invocation 1]\<rparr>]
   \<and> timers (fst (shutdown
      (constructor (test_config\<lparr>cfg_batchSize := Some (Num 2), cfg_flushInterval := Some (Num 3)\<rparr>) 0)))
     = []
   \<and> handed (advance 3 (log (test_invocation 1) (fst (shutdown
      (constructor (test_config\<lparr>cfg_batchSize := Some (Num 2), cfg_flushInterval := Some (Num 3)\<rparr>) 0)))))
     = []
   \<and> queue (tel (advance 3 (log (test_invocation 1) (fst (shutdown
      (constructor (test_config\<lparr>cfg_batchSize := Some (Num 2), cfg_flushInterval := Some (Num 3)\<rparr>) 0))))))
     = [test_invocation 1]"
proof -
  let ?w = "constructor (test_config\<lparr>cfg_batchSize := Some (Num 2), cfg_flushInterval := Some (Num 3)\<rparr>) 0"
  have r: "?w = run [] ?w" by (simp add: run_Nil)
  have fires: "handed (advance 3 (log (test_invocation 1) ?w))
     = [\<lparr>batch_apiKey = ''test-key'', batch_mcpServerId = None, batch_timestamp = 3,
         invocations = [test_invocation 1]\<rparr>]"
    by (simp add: test_world advance_3 log_def tick_def flush_def Let_def)
  have after: "handed (log (test_invocation 1) (fst (shutdown ?w))) = []"
    "queue (tel (log (test_invocation 1) (fst (shutdown ?w)))) = [test_invocation 1]"
    by (simp_all add: test_world shutdown_def log_def flush_def clearInterval_def Let_def)
  from shutdown_stops_timer [where w = ?w and n = 3 and i = "test_invocation 1", OF r] fires after
  show ?thesis by simp
qed

section \<open>Server metadata\<close>

lemma metadata_exec: "\<not> sets_info x \<Longrightarrow> metadata (tel (exec x w)) = metadata (tel w)"
proof (induction x arbitrary: w)
  case (Trace name script outcome options)
  from Trace.prems have no: "\<And>y. y \<in> set script \<Longrightarrow> \<not> sets_info y"
    by (simp add: list_ex_iff)
  have "metadata (tel (fold exec script (w\<lparr>uuids := Suc (uuids w)\<rparr>))) = metadata (tel w)"
    by (rule fold_preserves [where P = "\<lambda>w'. metadata (tel w') = metadata (tel w)"])
       (simp_all add: Trace.IH no)
  with exec_Trace [of name script outcome options w] show ?case
    by (auto simp: log_fields)
next
  case (Emit event)
  show ?case
    by (simp, rule emit_preserves [where P = "\<lambda>w'. metadata (tel w') = metadata (tel w)"])
       (simp_all add: shutdown_fields)
qed (simp_all add: log_fields flush_fields shutdown_fields tick_fields)

lemma serverInfo_kept:
  "serverName (metadata (tel w)) \<noteq> None \<and> serverVersion (metadata (tel w)) \<noteq> None \<Longrightarrow>
   serverName (metadata (tel (exec x w))) \<noteq> None \<and>
   serverVersion (metadata (tel (exec x w))) \<noteq> None"
  by (rule exec_preserves [where P = "\<lambda>w'. serverName (metadata (tel w')) \<noteq> None \<and>
        serverVersion (metadata (tel w')) \<noteq> None"])
     (simp_all add: log_fields flush_fields shutdown_fields tick_fields setServerInfo_def)

text \<open>
  The collector's metadata is not empty after construction with an \<open>mcpServerId\<close>: the
  constructor itself stores the id there.
\<close>

theorem constructor_writes_metadata:
  "metadata (tel (constructor (test_config\<lparr>cfg_mcpServerId := Some ''server-123''\<rparr>) 0)) =
     \<lparr>serverName = None, serverVersion = None, meta_mcpServerId = Some ''server-123''\<rparr>
   \<and> metadata (tel (constructor (test_config\<lparr>cfg_mcpServerId := Some ''server-123''\<rparr>) 0)) \<noteq>
     \<lparr>serverName = None, serverVersion = None, meta_mcpServerId = None\<rparr>"
  by (simp add: constructor_metadata test_config_def)

text \<open>
  C9, as amended. After construction \<open>serverName\<close> and \<open>serverVersion\<close> are absent
  from the collector's metadata, and \<open>mcpServerId\<close> is the configured id when that is a
  non-empty string. \<open>setServerInfo\<close> overwrites \<open>serverName\<close> and \<open>serverVersion\<close>
  and nothing else. No other operation (logging, tracing an operation that does not call
  \<open>setServerInfo\<close>, flushing, shutdown, a timer tick, a process event) changes the
  metadata, and no operation removes a server name or version that is set.
\<close>

theorem metadata_writers:
  "metadata (tel (constructor config now)) =
     \<lparr>serverName = None, serverVersion = None,
      meta_mcpServerId =
        (case cfg_mcpServerId config of None \<Rightarrow> None
         | Some s \<Rightarrow> if s = [] then None else Some s)\<rparr>
   \<and> metadata (tel (setServerInfo name version w)) =
       (metadata (tel w))\<lparr>serverName := Some name, serverVersion := Some version\<rparr>
   \<and> (\<not> sets_info x \<longrightarrow> metadata (tel (exec x w)) = metadata (tel w))
   \<and> (serverName (metadata (tel w)) \<noteq> None \<and> serverVersion (metadata (tel w)) \<noteq> None \<longrightarrow>
        serverName (metadata (tel (exec x w))) \<noteq> None \<and>
        serverVersion (metadata (tel (exec x w))) \<noteq> None)"
  using constructor_metadata [of config now] metadata_exec [of x w] serverInfo_kept [of w x]
  by (simp add: setServerInfo_def)

theorem metadata_writers_witness:
  "metadata (tel (exec (Trace ''x'' [Log (test_invocation 1), Tick] (Inr (JNumber 42)) None)
      (setServerInfo ''my-server'' ''1.0.0'' (constructor test_config 0)))) =
     \<lparr>serverName = Some ''my-server'', serverVersion = Some ''1.0.0'', meta_mcpServerId = None\<rparr>"
proof -
  let ?x = "Trace ''x'' [Log (test_invocation 1), Tick] (Inr (JNumber 42)) None"
  let ?w = "setServerInfo ''my-server'' ''1.0.0'' (constructor test_config 0)"
  have n: "\<not> sets_info ?x" by simp
  from metadata_writers [where x = ?x and w = ?w] n
  have "metadata (tel (exec ?x ?w)) = metadata (tel ?w)" by blast
  then show ?thesis
    by (simp add: setServerInfo_def constructor_metadata test_config_def)
qed

section \<open>Falsy configuration values\<close>

text \<open>
  C10. For every configuration the batch size and the flush interval of the collector
  are never zero. They are the defaults 10 and 5000 when the field is absent and also
  when it is 0 (or NaN); any other number is kept.
\<close>

theorem constructor_falsy_defaults:
  "batchSize (tel (constructor config now)) \<noteq> 0
   \<and> flushInterval (tel (constructor config now)) \<noteq> 0
   \<and> batchSize (tel (constructor (config\<lparr>cfg_batchSize := None\<rparr>) now)) = 10
   \<and> batchSize (tel (constructor (config\<lparr>cfg_batchSize := Some (Num 0)\<rparr>) now)) = 10
   \<and> batchSize (tel (constructor (config\<lparr>cfg_batchSize := Some NaN\<rparr>) now)) = 10
   \<and> flushInterval (tel (constructor (config\<lparr>cfg_flushInterval := None\<rparr>) now)) = 5000
   \<and> flushInterval (tel (constructor (config\<lparr>cfg_flushInterval := Some (Num 0)\<rparr>) now)) = 5000
   \<and> flushInterval (tel (constructor (config\<lparr>cfg_flushInterval := Some NaN\<rparr>) now)) = 5000
   \<and> (n \<noteq> 0 \<longrightarrow>
        batchSize (tel (constructor (config\<lparr>cfg_batchSize := Some (Num n)\<rparr>) now)) = n \<and>
        flushInterval (tel (constructor (config\<lparr>cfg_flushInterval := Some (Num n)\<rparr>) now)) = n)"
proof -
  have "batchSize (tel (constructor config now)) \<noteq> 0"
    "flushInterval (tel (constructor config now)) \<noteq> 0"
    by (simp_all add: constructor_fields or_number_nonzero DEFAULT_BATCH_SIZE_def
        DEFAULT_FLUSH_INTERVAL_def)
  then show ?thesis
    by (simp add: constructor_fields or_number_def DEFAULT_BATCH_SIZE_def
        DEFAULT_FLUSH_INTERVAL_def)
qed

theorem constructor_falsy_defaults_witness:
  "batchSize (tel (constructor (test_config\<lparr>cfg_batchSize := Some (Num 5)\<rparr>) 0)) = 5
   \<and> flushInterval (tel (constructor (test_config\<lparr>cfg_flushInterval := Some (Num 5)\<rparr>) 0)) = 5
   \<and> batchSize (tel (constructor (test_config\<lparr>cfg_batchSize := Some (Num 0)\<rparr>) 0)) = 10"
proof -
  have "(5::int) \<noteq> 0" by simp
  with constructor_falsy_defaults [where config = test_config and now = 0 and n = 5]
  show ?thesis by blast
qed

end
